theory Spec2Isabelle
  imports Main
begin

section \<open>JavaScript values\<close>

text \<open>
  The page builder is TypeScript whose page data is untyped (\<^verbatim>\<open>any\<close>): field values come
  from YAML, resources are a union of three shapes. The embedding therefore works on one
  universe of JavaScript values. A \<^typ>\<open>char\<close> stands for a UTF-16 code unit below 256;
  texts with other code units are outside the model.
\<close>

text \<open>The platform's \<^verbatim>\<open>Url\<close> class: its \<^verbatim>\<open>path\<close> and the text of \<^verbatim>\<open>toString()\<close>.\<close>

record url =
  url_path :: string
  url_string :: string

text \<open>
  The platform's \<^verbatim>\<open>StaticFile\<close> class, by what the builder reads of it: \<^verbatim>\<open>url\<close> is
  undefined when no static route serves the file, \<^verbatim>\<open>fingerprint\<close> is the text the platform
  gives for the file's content, and \<open>sf_text\<close> is the text that \<^verbatim>\<open>String(file)\<close>
  yields.
\<close>

record staticFile =
  sf_podPath :: string
  sf_url :: "url option"
  sf_fingerprint :: string
  sf_exists :: bool
  sf_text :: string

text \<open>
  A number is kept by the two things this code observes of it: whether it is truthy
  (neither zero nor NaN) and the text \<^verbatim>\<open>String(n)\<close> yields. Objects are association lists,
  the first binding of a key being the live one.
\<close>

datatype jsval =
    JUndefined
  | JNull
  | JBool bool
  | JNum bool string
  | JStr string
  | JList "jsval list"
  | JObj "(string \<times> jsval) list"
  | JFile staticFile
  | JUrl url

text \<open>
  What a build can throw: \<open>Error msg\<close> is \<^verbatim>\<open>throw new Error(msg)\<close> of the builder itself,
  \<open>TypeError\<close> is the runtime's (a property of null or undefined, a call of something that
  is not a function), \<open>Failure\<close> is whatever a collaborator throws or rejects with.
\<close>

datatype error = Error string | TypeError | Failure string

fun truthy :: "jsval \<Rightarrow> bool" where
  "truthy JUndefined = False"
| "truthy JNull = False"
| "truthy (JBool b) = b"
| "truthy (JNum t s) = t"
| "truthy (JStr s) = (s \<noteq> [])"
| "truthy (JList xs) = True"
| "truthy (JObj kvs) = True"
| "truthy (JFile f) = True"
| "truthy (JUrl u) = True"

definition nullish :: "jsval \<Rightarrow> bool" where
  "nullish v = (v = JUndefined \<or> v = JNull)"

text \<open>The operator \<^verbatim>\<open>a ?? b\<close>.\<close>

definition coalesce :: "jsval \<Rightarrow> jsval \<Rightarrow> jsval" where
  "coalesce a b = (if nullish a then b else a)"

definition optUrl :: "url option \<Rightarrow> jsval" where
  "optUrl u = (case u of None \<Rightarrow> JUndefined | Some x \<Rightarrow> JUrl x)"

definition optStr :: "string option \<Rightarrow> jsval" where
  "optStr s = (case s of None \<Rightarrow> JUndefined | Some x \<Rightarrow> JStr x)"

definition optBool :: "bool option \<Rightarrow> jsval" where
  "optBool s = (case s of None \<Rightarrow> JUndefined | Some x \<Rightarrow> JBool x)"

definition optVal :: "jsval option \<Rightarrow> jsval" where
  "optVal s = (case s of None \<Rightarrow> JUndefined | Some x \<Rightarrow> x)"

text \<open>
  Reading a property with optional chaining, \<^verbatim>\<open>v?.k\<close>, for the property names the
  builder reads from untyped values (\<^verbatim>\<open>partial\<close>, \<^verbatim>\<open>absolutePath\<close>, \<^verbatim>\<open>includeInspector\<close>,
  \<^verbatim>\<open>href\<close>, \<^verbatim>\<open>url\<close>, \<^verbatim>\<open>path\<close>, \<^verbatim>\<open>fingerprint\<close>): primitives and arrays have none of
  them.
\<close>

fun getProp :: "jsval \<Rightarrow> string \<Rightarrow> jsval" where
  "getProp (JObj kvs) k = optVal (map_of kvs k)"
| "getProp (JFile f) k =
     (if k = ''url'' then optUrl (sf_url f)
      else if k = ''fingerprint'' then JStr (sf_fingerprint f)
      else JUndefined)"
| "getProp (JUrl u) k = (if k = ''path'' then JStr (url_path u) else JUndefined)"
| "getProp v k = JUndefined"

text \<open>Reading a property without the guard, \<^verbatim>\<open>v.k\<close>: null and undefined throw.\<close>

definition propE :: "jsval \<Rightarrow> string \<Rightarrow> error + jsval" where
  "propE v k = (if nullish v then Inl TypeError else Inr (getProp v k))"

text \<open>\<^verbatim>\<open>Array.prototype.join\<close> on texts.\<close>

fun joinWith :: "string \<Rightarrow> string list \<Rightarrow> string" where
  "joinWith sep [] = []"
| "joinWith sep [x] = x"
| "joinWith sep (x # y # ys) = x @ sep @ joinWith sep (y # ys)"

definition joinLines :: "string list \<Rightarrow> string" where
  "joinLines xs = joinWith ''\<newline>'' xs"

text \<open>
  The text a template literal puts in for \<^verbatim>\<open>${v}\<close>. An array joins its elements with
  commas, null and undefined elements as empty texts.
\<close>

fun toStr :: "jsval \<Rightarrow> string" where
  "toStr JUndefined = ''undefined''"
| "toStr JNull = ''null''"
| "toStr (JBool b) = (if b then ''true'' else ''false'')"
| "toStr (JNum t s) = s"
| "toStr (JStr s) = s"
| "toStr (JList xs) = joinWith '','' (map (\<lambda>x. if nullish x then [] else toStr x) xs)"
| "toStr (JObj kvs) = ''[object Object]''"
| "toStr (JFile f) = sf_text f"
| "toStr (JUrl u) = url_string u"

text \<open>
  The value of \<^verbatim>\<open>!v?.includes('?')\<close>: a text is searched for the character, an array for
  the element, null and undefined give \<^verbatim>\<open>!undefined\<close>, and anything else has no such
  method, so the call throws.
\<close>

fun notIncludesQuery :: "jsval \<Rightarrow> error + bool" where
  "notIncludesQuery JUndefined = Inr True"
| "notIncludesQuery JNull = Inr True"
| "notIncludesQuery (JStr s) = Inr (CHR ''?'' \<notin> set s)"
| "notIncludesQuery (JList xs) = Inr (JStr ''?'' \<notin> set xs)"
| "notIncludesQuery v = Inl TypeError"

text \<open>
  White space as \<^verbatim>\<open>String.prototype.trim\<close> and the pattern class \<^verbatim>\<open>\s\<close> see it: tab,
  line feed, vertical tab, form feed, carriage return, space, no-break space.
\<close>

definition isSpace :: "char \<Rightarrow> bool" where
  "isSpace c = (c = CHR 0x09 \<or> c = CHR 0x0A \<or> c = CHR 0x0B \<or> c = CHR 0x0C
     \<or> c = CHR 0x0D \<or> c = CHR 0x20 \<or> c = CHR 0xA0)"

fun trimEnd :: "string \<Rightarrow> string" where
  "trimEnd [] = []"
| "trimEnd (c # cs) = (let r = trimEnd cs in if r = [] \<and> isSpace c then [] else c # r)"

definition trim :: "string \<Rightarrow> string" where
  "trim s = trimEnd (dropWhile isSpace s)"

section \<open>The page, the pod and the options\<close>

text \<open>
  A document of the platform, by what the builder reads of it. A locale is its identifier:
  the platform keeps one \<^verbatim>\<open>Locale\<close> object per identifier, so comparing the objects is
  comparing the identifiers. \<open>doc_locales\<close> lists the \<^verbatim>\<open>Set\<close> of locales in its
  iteration order. \<open>doc_collection\<close> is the field mapping of the owning collection, if the
  document has one.
\<close>

record document =
  doc_podPath :: string
  doc_locale :: string
  doc_defaultLocale :: string
  doc_locales :: "string list"
  doc_fields :: "(string \<times> jsval) list"
  doc_collection :: "(string \<times> jsval) list option"
  doc_url :: "url option"

text \<open>
  A template engine of the pod. The second argument is the \<^verbatim>\<open>partial\<close> entry that the
  builder adds to its template context, \<open>None\<close> when the context is passed as it is; the
  rest of the context is the same throughout a build.
\<close>

record engine =
  render :: "string \<Rightarrow> jsval option \<Rightarrow> error + string"
  renderFromString :: "string \<Rightarrow> jsval option \<Rightarrow> error + string"

text \<open>The pod: the content store and the engines of the platform.\<close>

record pod =
  env_dev :: bool
  env_name :: string
  fileExists :: "string \<Rightarrow> bool"
  pod_doc :: "string \<Rightarrow> string \<Rightarrow> document"
  pod_staticFile :: "string \<Rightarrow> staticFile"
  getEngineByFilename :: "string \<Rightarrow> engine"

text \<open>
  What the module imports besides the pod: \<^verbatim>\<open>interpolate\<close> (applied to the pod, a path
  format and a context object), \<^verbatim>\<open>Url.relative\<close> (applied to a value and the document
  of the template context; its declared result is a text), \<^verbatim>\<open>fs.readFileSync\<close> in UTF-8,
  \<^verbatim>\<open>jsBeautify.html\<close> with its indent size, and the file list and URL base of the static
  route provider of the page builder.
\<close>

record modules =
  interpolate :: "string \<Rightarrow> jsval \<Rightarrow> string"
  url_relative :: "jsval \<Rightarrow> error + string"
  readFileSync :: "jsval \<Rightarrow> error + string"
  jsBeautify_html :: "string \<Rightarrow> nat \<Rightarrow> string"
  provider_files :: "string list"
  provider_urlBase :: string

record partialPaths =
  pp_css :: string
  pp_js :: string
  pp_view :: string

text \<open>
  The \<^verbatim>\<open>class\<close> option of the body: a text, or a function of the template context, kept by
  the outcome of awaiting its call.
\<close>

datatype bodyClass = ClassName string | ClassFunction "error + string"

record headOptions =
  head_description :: "string option"
  head_icon :: "jsval option"
  head_image :: "string option"
  head_scripts :: "jsval list option"
  head_siteName :: "string option"
  head_stylesheets :: "jsval list option"
  head_twitterSite :: "string option"
  head_themeColor :: "string option"
  head_noIndex :: "bool option"
  head_extra :: "string list option"

record bodyOptions =
  body_class :: "bodyClass option"
  body_prepend :: "string list option"
  body_extra :: "string list option"

record pageBuilderOptions =
  opt_inspector :: "bool option"
  opt_beautify :: "bool option"
  opt_head :: "headOptions option"
  opt_body :: "bodyOptions option"
  opt_partialPaths :: "partialPaths option"

text \<open>
  The builder object. Its one mutable member, \<^verbatim>\<open>resourceUrls\<close>, is passed through the
  functions below as an explicit state; the constructor starts it empty.
\<close>

record pageBuilder =
  doc :: document
  pod :: pod
  context_doc :: document
  options :: pageBuilderOptions
  imported :: modules

type_synonym registry = "jsval list"

definition enableInspector :: "pageBuilder \<Rightarrow> bool" where
  "enableInspector b =
     (case opt_inspector (options b) of
        Some enabled \<Rightarrow> enabled
      | None \<Rightarrow> env_dev (pod b) \<or> env_name (pod b) = ''staging'')"

definition builderPartialPaths :: "pageBuilder \<Rightarrow> partialPaths" where
  \<open>builderPartialPaths b =
     (case opt_partialPaths (options b) of
        Some p \<Rightarrow> p
      | None \<Rightarrow> \<lparr> pp_css = ''/dist/css/partials/${partial.partial}.css'',
                  pp_js = ''/dist/js/partials/${partial.partial}.js'',
                  pp_view = ''/views/partials/${partial.partial}.njk'' \<rparr>)\<close>

section \<open>Fields and resource URLs\<close>

definition fieldOf :: "(string \<times> jsval) list \<Rightarrow> string \<Rightarrow> jsval" where
  "fieldOf fs name = optVal (map_of fs name)"

definition collectionField :: "document \<Rightarrow> string \<Rightarrow> jsval" where
  "collectionField d name =
     (case doc_collection d of None \<Rightarrow> JUndefined | Some fs \<Rightarrow> fieldOf fs name)"

definition getFieldValue :: "pageBuilder \<Rightarrow> string \<Rightarrow> jsval" where
  "getFieldValue b name = coalesce (fieldOf (doc_fields (doc b)) name) (collectionField (doc b) name)"

record getUrlOptions =
  includeDomain :: "bool option"
  relative :: "bool option"

definition getUrl :: "pageBuilder \<Rightarrow> jsval \<Rightarrow> getUrlOptions option \<Rightarrow> error + jsval" where
  "getUrl b item opts =
     (let fingerprint = getProp item ''fingerprint'';
          url0 = (if truthy (getProp item ''url'')
                  then (if (case opts of None \<Rightarrow> False | Some o1 \<Rightarrow> includeDomain o1 = Some True)
                        then JStr (toStr (getProp item ''url''))
                        else getProp (getProp item ''url'') ''path'')
                  else item);
          url1 = (if (case opts of None \<Rightarrow> False | Some o1 \<Rightarrow> relative o1 = Some True) \<and> truthy url0
                  then (case url_relative (imported b) url0 of
                          Inl e \<Rightarrow> Inl e
                        | Inr r \<Rightarrow> Inr (JStr r))
                  else Inr url0)
      in case url1 of
           Inl e \<Rightarrow> Inl e
         | Inr url \<Rightarrow>
             if truthy fingerprint
             then (case notIncludesQuery url of
                     Inl e \<Rightarrow> Inl e
                   | Inr True \<Rightarrow> Inr (JStr (toStr url @ ''?fingerprint='' @ toStr fingerprint))
                   | Inr False \<Rightarrow> Inr url)
             else Inr url)"

record getHrefFromResourceOptions =
  includeFingerprint :: "bool option"

definition getHrefFromResource :: "jsval \<Rightarrow> getHrefFromResourceOptions option \<Rightarrow> jsval" where
  "getHrefFromResource resource opts =
     (case resource of
        JFile f \<Rightarrow>
          (let href = (case sf_url f of None \<Rightarrow> JUndefined | Some u \<Rightarrow> JStr (url_path u))
           in if (case opts of None \<Rightarrow> True | Some o1 \<Rightarrow> includeFingerprint o1 \<noteq> Some False)
                 \<and> (case href of JStr s \<Rightarrow> CHR ''?'' \<notin> set s | _ \<Rightarrow> True)
              then JStr (toStr href @ ''?fingerprint='' @ sf_fingerprint f)
              else href)
      | _ \<Rightarrow> if truthy (getProp resource ''href'') then getProp resource ''href'' else resource)"

section \<open>Emitting a script or a stylesheet once\<close>

definition relativeOnly :: "getUrlOptions option" where
  "relativeOnly = Some \<lparr> includeDomain = None, relative = Some True \<rparr>"

definition noUrlError :: "jsval \<Rightarrow> error" where
  \<open>noUrlError resource =
     Error (''Resource '' @ toStr resource
            @ '' has no URL. Does it exist and is it mapped in `staticRoutes`?'')\<close>

definition scriptMarkup :: "jsval \<Rightarrow> bool \<Rightarrow> bool \<Rightarrow> string" where
  \<open>scriptMarkup url defer async =
     trim (''\<newline>      <script\<newline>        src="'' @ toStr url
           @ ''"\<newline>        '' @ (if defer then ''defer'' else [])
           @ ''\<newline>        '' @ (if async then ''async'' else [])
           @ ''\<newline>      >\<newline>      </script>\<newline>    '')\<close>

definition styleLinkMarkup :: "jsval \<Rightarrow> bool \<Rightarrow> string" where
  \<open>styleLinkMarkup url async =
     trim (''\<newline>      <link\<newline>        href="'' @ toStr url
           @ ''"\<newline>        rel="stylesheet"\<newline>        ''
           @ (if async
              then ''\<newline>            rel="preload"\<newline>            as="style"\<newline>            onload="this.onload=null;this.rel='stylesheet'"\<newline>            ''
              else [])
           @ ''\<newline>      >\<newline>    '')\<close>

definition buildScriptElement ::
  "pageBuilder \<Rightarrow> jsval \<Rightarrow> bool \<Rightarrow> bool \<Rightarrow> registry \<Rightarrow> error + string \<times> registry" where
  "buildScriptElement b resource defer async resourceUrls =
     (let href = getHrefFromResource resource None
      in case getUrl b href relativeOnly of
           Inl e \<Rightarrow> Inl e
         | Inr url \<Rightarrow>
             if url \<in> set resourceUrls then Inr ([], resourceUrls)
             else if \<not> truthy url then Inl (noUrlError resource)
             else Inr (scriptMarkup url defer async, resourceUrls @ [url]))"

definition buildStyleLinkElement ::
  "pageBuilder \<Rightarrow> jsval \<Rightarrow> bool \<Rightarrow> registry \<Rightarrow> error + string \<times> registry" where
  "buildStyleLinkElement b resource async resourceUrls =
     (let href = getHrefFromResource resource None
      in case getUrl b href relativeOnly of
           Inl e \<Rightarrow> Inl e
         | Inr url \<Rightarrow>
             if url \<in> set resourceUrls then Inr ([], resourceUrls)
             else if \<not> truthy url then Inl (noUrlError resource)
             else Inr (styleLinkMarkup url async, resourceUrls @ [url]))"

text \<open>
  Running one function over a list with the registry passed along, as \<^verbatim>\<open>Array.map\<close> with
  a callback that changes the registry does; the first error ends the run.
\<close>

fun mapE :: "('a \<Rightarrow> 's \<Rightarrow> error + 'b \<times> 's) \<Rightarrow> 'a list \<Rightarrow> 's \<Rightarrow> error + 'b list \<times> 's" where
  "mapE f [] s = Inr ([], s)"
| "mapE f (x # xs) s =
     (case f x s of
        Inl e \<Rightarrow> Inl e
      | Inr (y, s') \<Rightarrow>
          (case mapE f xs s' of
             Inl e \<Rightarrow> Inl e
           | Inr (ys, s'') \<Rightarrow> Inr (y # ys, s'')))"

text \<open>
  The URL under which a resource is registered, and one call of either emitting function,
  so that a run of such calls, as a build makes them, is a list.
\<close>

definition resolvedUrl :: "pageBuilder \<Rightarrow> jsval \<Rightarrow> error + jsval" where
  "resolvedUrl b resource = getUrl b (getHrefFromResource resource None) relativeOnly"

datatype emission = EmitScript jsval bool bool | EmitStyleLink jsval bool

fun emissionResource :: "emission \<Rightarrow> jsval" where
  "emissionResource (EmitScript resource defer async) = resource"
| "emissionResource (EmitStyleLink resource async) = resource"

fun emit :: "pageBuilder \<Rightarrow> emission \<Rightarrow> registry \<Rightarrow> error + string \<times> registry" where
  "emit b (EmitScript resource defer async) resourceUrls =
     buildScriptElement b resource defer async resourceUrls"
| "emit b (EmitStyleLink resource async) resourceUrls =
     buildStyleLinkElement b resource async resourceUrls"

section \<open>Partials\<close>

text \<open>\<^verbatim>\<open>Array.prototype.join\<close> on values: null and undefined elements join as empty texts.\<close>

definition arrayJoin :: "string \<Rightarrow> jsval list \<Rightarrow> string" where
  "arrayJoin sep xs = joinWith sep (map (\<lambda>x. if nullish x then [] else toStr x) xs)"

definition isString :: "jsval \<Rightarrow> bool" where
  "isString v = (case v of JStr s \<Rightarrow> True | _ \<Rightarrow> False)"

definition partialName :: "jsval \<Rightarrow> jsval" where
  "partialName pp = (if isString pp then pp else getProp pp ''partial'')"

definition partialContext :: "jsval \<Rightarrow> jsval" where
  "partialContext v = JObj [(''partial'', v)]"

text \<open>
  The conventional asset of a partial: the static file at the path that the path format
  gives for the partial's name.
\<close>

definition partialAsset :: "pageBuilder \<Rightarrow> string \<Rightarrow> jsval \<Rightarrow> staticFile" where
  "partialAsset b pathFormat name =
     pod_staticFile (pod b)
       (interpolate (imported b) pathFormat (partialContext (JObj [(''partial'', name)])))"

text \<open>
  The first stage of \<^verbatim>\<open>buildPartialElement\<close>: the conventional stylesheet and script of
  the partial, each emitted only if the file exists. The result is what the stage pushes
  on \<^verbatim>\<open>partialBuilder\<close>.
\<close>

definition loadPartialResources ::
  "pageBuilder \<Rightarrow> jsval \<Rightarrow> registry \<Rightarrow> error + jsval list \<times> registry" where
  "loadPartialResources b name resourceUrls =
     (let cssFile = partialAsset b (pp_css (builderPartialPaths b)) name;
          jsFile = partialAsset b (pp_js (builderPartialPaths b)) name
      in case (if sf_exists cssFile
               then (case buildStyleLinkElement b (JFile cssFile) True resourceUrls of
                       Inl e \<Rightarrow> Inl e
                     | Inr (m, r) \<Rightarrow> Inr ([JStr m], r))
               else Inr ([], resourceUrls)) of
           Inl e \<Rightarrow> Inl e
         | Inr (css, r1) \<Rightarrow>
             (if sf_exists jsFile
              then (case buildScriptElement b (JFile jsFile) False False r1 of
                      Inl e \<Rightarrow> Inl e
                    | Inr (m, r2) \<Rightarrow> Inr (css @ [JStr m], r2))
              else Inr (css, r1)))"

definition inspectorMarker :: "jsval \<Rightarrow> string" where
  \<open>inspectorMarker name =
     ''\<newline>        <page-module-inspector partial="'' @ toStr name
     @ ''"></page-module-inspector>\<newline>      ''\<close>

text \<open>
  The last stage: a named partial is rendered from its view file, an inline one from the
  text of the file at its \<^verbatim>\<open>absolutePath\<close>, and any other descriptor leaves \<^verbatim>\<open>html\<close>
  undefined.
\<close>

definition renderPartialTemplate :: "pageBuilder \<Rightarrow> jsval \<Rightarrow> jsval \<Rightarrow> error + jsval" where
  "renderPartialTemplate b partial pp =
     (let eng = getEngineByFilename (pod b) (pp_view (builderPartialPaths b))
      in if isString pp
         then (case render eng
                      (interpolate (imported b) (pp_view (builderPartialPaths b))
                         (partialContext partial))
                      (Some partial) of
                 Inl e \<Rightarrow> Inl e
               | Inr html \<Rightarrow> Inr (JStr html))
         else if truthy (getProp pp ''absolutePath'')
         then (case readFileSync (imported b) (getProp pp ''absolutePath'') of
                 Inl e \<Rightarrow> Inl e
               | Inr template \<Rightarrow>
                   (case renderFromString eng template (Some partial) of
                      Inl e \<Rightarrow> Inl e
                    | Inr html \<Rightarrow> Inr (JStr html)))
         else Inr JUndefined)"

text \<open>
  The text of a module: what has been pushed on \<^verbatim>\<open>partialBuilder\<close> by the end, joined
  by line feeds. \<open>loaded\<close> is what the first stage pushed.
\<close>

definition moduleMarkup :: "pageBuilder \<Rightarrow> jsval list \<Rightarrow> jsval \<Rightarrow> jsval \<Rightarrow> string" where
  \<open>moduleMarkup b loaded pp html =
     arrayJoin ''\<newline>''
       (loaded @ [JStr ''<page-module>'']
        @ (if enableInspector b \<and> getProp pp ''includeInspector'' \<noteq> JBool False
           then [JStr (inspectorMarker (partialName pp))] else [])
        @ [html, JStr ''</page-module>''])\<close>

definition buildPartialElement ::
  "pageBuilder \<Rightarrow> jsval \<Rightarrow> registry \<Rightarrow> error + string \<times> registry" where
  "buildPartialElement b partial resourceUrls =
     (case propE partial ''partial'' of
        Inl e \<Rightarrow> Inl e
      | Inr pp \<Rightarrow>
          (case loadPartialResources b (partialName pp) resourceUrls of
             Inl e \<Rightarrow> Inl e
           | Inr (loaded, r) \<Rightarrow>
               (case renderPartialTemplate b partial pp of
                  Inl e \<Rightarrow> Inl e
                | Inr html \<Rightarrow> Inr (moduleMarkup b loaded pp html, r))))"

definition buildBuiltinPartial ::
  "pageBuilder \<Rightarrow> string \<Rightarrow> registry \<Rightarrow> error + string \<times> registry" where
  "buildBuiltinPartial b partial resourceUrls =
     (let contentPodPath = ''/content/partials/'' @ partial @ ''.yaml'';
          viewPodPath = ''/views/partials/'' @ partial @ ''.njk''
      in if fileExists (pod b) viewPodPath
         then buildPartialElement b
                (JObj ((if fileExists (pod b) contentPodPath
                        then doc_fields (pod_doc (pod b) contentPodPath (doc_locale (context_doc b)))
                        else [])
                       @ [(''partial'', JStr partial)]))
                resourceUrls
         else Inr ([], resourceUrls))"

section \<open>The head element\<close>

text \<open>\<^verbatim>\<open>String.prototype.replace\<close> with a text pattern: the first occurrence only.\<close>

fun replaceFirst :: "string \<Rightarrow> string \<Rightarrow> string \<Rightarrow> string" where
  "replaceFirst pat rep [] = (if pat = [] then rep else [])"
| "replaceFirst pat rep (c # cs) =
     (if take (length pat) (c # cs) = pat then rep @ drop (length pat) (c # cs)
      else c # replaceFirst pat rep cs)"

definition getHtmlLang :: "string \<Rightarrow> string" where
  "getHtmlLang localeId = replaceFirst ''_'' ''-'' (replaceFirst ''_ALL'' [] localeId)"

definition whenTruthy :: "jsval \<Rightarrow> string \<Rightarrow> string" where
  "whenTruthy v s = (if truthy v then s else [])"

record metaOptions =
  meta_description :: jsval
  meta_image :: jsval
  meta_locale :: jsval
  meta_siteName :: jsval
  meta_themeColor :: jsval
  meta_title :: jsval
  meta_twitterSite :: jsval
  meta_url :: jsval
  meta_noIndex :: jsval

definition domainOnly :: "getUrlOptions option" where
  "domainOnly = Some \<lparr> includeDomain = Some True, relative = None \<rparr>"

definition imageMeta :: "pageBuilder \<Rightarrow> string \<Rightarrow> jsval \<Rightarrow> error + string" where
  \<open>imageMeta b property img =
     (if truthy img
      then (case getUrl b img domainOnly of
              Inl e \<Rightarrow> Inl e
            | Inr u \<Rightarrow> Inr (''<meta property="'' @ property @ ''" content="'' @ toStr u @ ''">''))
      else Inr [])\<close>

definition buildHeadMetaElements :: "pageBuilder \<Rightarrow> metaOptions \<Rightarrow> error + string" where
  \<open>buildHeadMetaElements b opts =
     (case imageMeta b ''og:image'' (meta_image opts) of
        Inl e \<Rightarrow> Inl e
      | Inr ogImage \<Rightarrow>
     (case imageMeta b ''twitter:image'' (meta_image opts) of
        Inl e \<Rightarrow> Inl e
      | Inr twitterImage \<Rightarrow>
          Inr (trim (
            ''\<newline>      ''
            @ whenTruthy (meta_title opts) (''<title>'' @ toStr (meta_title opts) @ ''</title>'')
            @ ''\<newline>      ''
            @ whenTruthy (meta_description opts)
                (''<meta name="description" content="'' @ toStr (meta_description opts) @ ''">'')
            @ ''\<newline>      ''
            @ whenTruthy (meta_themeColor opts)
                (''<meta name="theme-color" content="'' @ toStr (meta_themeColor opts) @ ''">'')
            @ ''\<newline>      ''
            @ whenTruthy (meta_noIndex opts) ''<meta name="robots" content="noindex">''
            @ ''\<newline>      <meta name="referrer" content="no-referrer">\<newline>      <meta property="og:type" content="website">\<newline>      ''
            @ whenTruthy (meta_siteName opts)
                (''<meta property="og:site_name" content="'' @ toStr (meta_siteName opts) @ ''">'')
            @ ''\<newline>      <meta property="og:url" content="'' @ toStr (meta_url opts)
            @ ''">\<newline>      ''
            @ whenTruthy (meta_title opts)
                (''<meta property="og:title" content="'' @ toStr (meta_title opts) @ ''">'')
            @ ''\<newline>      ''
            @ whenTruthy (meta_description opts)
                (''<meta property="og:description" content="'' @ toStr (meta_description opts) @ ''">'')
            @ ''\<newline>      ''
            @ ogImage
            @ ''\<newline>      ''
            @ whenTruthy (meta_locale opts)
                (''<meta property="og:locale" content="'' @ toStr (meta_locale opts) @ ''">'')
            @ ''\<newline>      ''
            @ whenTruthy (meta_twitterSite opts)
                (''<meta property="twitter:site" content="'' @ toStr (meta_twitterSite opts) @ ''">'')
            @ ''\<newline>      ''
            @ whenTruthy (meta_title opts)
                (''<meta property="twitter:title" content="'' @ toStr (meta_title opts) @ ''">'')
            @ ''\<newline>      ''
            @ whenTruthy (meta_description opts)
                (''<meta property="twitter:description" content="''
                 @ toStr (meta_description opts) @ ''">'')
            @ ''\<newline>      ''
            @ twitterImage
            @ ''\<newline>      <meta property="twitter:card" content="summary_large_image">\<newline>    ''))))\<close>

text \<open>
  The canonical and alternate links. \<open>siblingUrl\<close> is the \<^verbatim>\<open>url\<close> of the document at the
  page's pod path in another locale.
\<close>

definition siblingUrl :: "pageBuilder \<Rightarrow> string \<Rightarrow> jsval" where
  "siblingUrl b localeId = optUrl (doc_url (pod_doc (pod b) (doc_podPath (doc b)) localeId))"

definition canonicalLink :: "pageBuilder \<Rightarrow> string" where
  \<open>canonicalLink b =
     (case doc_url (doc b) of
        None \<Rightarrow> []
      | Some u \<Rightarrow> ''<link href="'' @ toStr (JUrl u) @ ''" rel="canonical">'')\<close>

definition defaultLink :: "jsval \<Rightarrow> string" where
  \<open>defaultLink defaultUrl =
     whenTruthy defaultUrl
       (''<link href="'' @ toStr defaultUrl @ ''" hreflang="x-default" rel="alternate">'')\<close>

definition alternateLink :: "pageBuilder \<Rightarrow> string \<Rightarrow> error + string" where
  \<open>alternateLink b localeId =
     (case getUrl b (siblingUrl b localeId) None of
        Inl e \<Rightarrow> Inl e
      | Inr u \<Rightarrow>
          Inr (''<link href="'' @ toStr u @ ''" hreflang="'' @ getHtmlLang localeId
               @ ''" rel="alternate">''))\<close>

text \<open>A map whose callback can throw: the first error ends it.\<close>

fun mapPure :: "('a \<Rightarrow> error + 'b) \<Rightarrow> 'a list \<Rightarrow> error + 'b list" where
  "mapPure f [] = Inr []"
| "mapPure f (x # xs) =
     (case f x of
        Inl e \<Rightarrow> Inl e
      | Inr y \<Rightarrow> (case mapPure f xs of Inl e \<Rightarrow> Inl e | Inr ys \<Rightarrow> Inr (y # ys)))"

definition hreflangMarkup :: "string \<Rightarrow> string \<Rightarrow> string list \<Rightarrow> string" where
  \<open>hreflangMarkup canonical xdefault links =
     trim (''\<newline>      '' @ canonical
           @ ''\<newline>      '' @ xdefault
           @ ''\<newline>      '' @ joinLines links
           @ ''\<newline>    '')\<close>

definition otherLocales :: "pageBuilder \<Rightarrow> string list" where
  "otherLocales b = filter (\<lambda>l. l \<noteq> doc_defaultLocale (doc b)) (doc_locales (doc b))"

definition buildHreflangLinkElements :: "pageBuilder \<Rightarrow> error + string" where
  "buildHreflangLinkElements b =
     (case getUrl b (siblingUrl b (doc_defaultLocale (doc b))) None of
        Inl e \<Rightarrow> Inl e
      | Inr defaultUrl \<Rightarrow>
          (case mapPure (alternateLink b) (otherLocales b) of
             Inl e \<Rightarrow> Inl e
           | Inr links \<Rightarrow> Inr (hreflangMarkup (canonicalLink b) (defaultLink defaultUrl) links)))"

definition buildHeadLinkElements :: "pageBuilder \<Rightarrow> jsval \<Rightarrow> error + string" where
  \<open>buildHeadLinkElements b icon =
     (case (if truthy icon
            then (case getUrl b icon relativeOnly of
                    Inl e \<Rightarrow> Inl e
                  | Inr u \<Rightarrow> Inr (''<link rel="icon" href="'' @ toStr u @ ''">''))
            else Inr []) of
        Inl e \<Rightarrow> Inl e
      | Inr link \<Rightarrow> Inr (trim (''\<newline>      '' @ link @ ''\<newline>    '')))\<close>

text \<open>
  The extra fragments are rendered through \<^verbatim>\<open>Promise.all\<close> and joined in the configured
  order; of several failing renders the model reports the first in that order.
\<close>

definition renderFile :: "pageBuilder \<Rightarrow> string \<Rightarrow> error + string" where
  "renderFile b podPath = render (getEngineByFilename (pod b) podPath) podPath None"

definition buildExtraElements :: "pageBuilder \<Rightarrow> string list \<Rightarrow> error + string" where
  "buildExtraElements b extra =
     (case mapPure (renderFile b) extra of
        Inl e \<Rightarrow> Inl e
      | Inr rendered \<Rightarrow> Inr (joinLines rendered))"

definition optionalExtra :: "pageBuilder \<Rightarrow> string list option \<Rightarrow> error + string" where
  "optionalExtra b extra =
     (case extra of None \<Rightarrow> Inr [] | Some paths \<Rightarrow> buildExtraElements b paths)"

definition headOption :: "pageBuilder \<Rightarrow> (headOptions \<Rightarrow> 'a option) \<Rightarrow> 'a option" where
  "headOption b sel = (case opt_head (options b) of None \<Rightarrow> None | Some h \<Rightarrow> sel h)"

definition bodyOption :: "pageBuilder \<Rightarrow> (bodyOptions \<Rightarrow> 'a option) \<Rightarrow> 'a option" where
  "bodyOption b sel = (case opt_body (options b) of None \<Rightarrow> None | Some h \<Rightarrow> sel h)"

definition headMetaOptions :: "pageBuilder \<Rightarrow> error + metaOptions" where
  "headMetaOptions b =
     (case doc_url (doc b) of
        None \<Rightarrow> Inl TypeError
      | Some u \<Rightarrow>
          Inr \<lparr> meta_description =
                  coalesce (getFieldValue b ''description'') (optStr (headOption b head_description)),
                meta_image = coalesce (getFieldValue b ''image'') (optStr (headOption b head_image)),
                meta_locale = JStr (doc_locale (doc b)),
                meta_siteName =
                  coalesce (getFieldValue b ''siteName'') (optStr (headOption b head_siteName)),
                meta_themeColor =
                  coalesce (getFieldValue b ''themeColor'') (optStr (headOption b head_themeColor)),
                meta_title =
                  coalesce (getFieldValue b ''title'') (optStr (headOption b head_siteName)),
                meta_twitterSite =
                  coalesce (getFieldValue b ''twitterSite'') (optStr (headOption b head_twitterSite)),
                meta_url = JStr (url_string u),
                meta_noIndex =
                  coalesce (getFieldValue b ''noIndex'') (optBool (headOption b head_noIndex)) \<rparr>)"

definition headStylesheets :: "pageBuilder \<Rightarrow> registry \<Rightarrow> error + string \<times> registry" where
  "headStylesheets b resourceUrls =
     (case headOption b head_stylesheets of
        None \<Rightarrow> Inr ([], resourceUrls)
      | Some styles \<Rightarrow>
          (case mapE (\<lambda>style. buildStyleLinkElement b style True) styles resourceUrls of
             Inl e \<Rightarrow> Inl e
           | Inr (ms, r) \<Rightarrow> Inr (joinLines ms, r)))"

definition headScripts :: "pageBuilder \<Rightarrow> registry \<Rightarrow> error + string \<times> registry" where
  "headScripts b resourceUrls =
     (case headOption b head_scripts of
        None \<Rightarrow> Inr ([], resourceUrls)
      | Some scripts \<Rightarrow>
          (case mapE (\<lambda>script. buildScriptElement b script False False) scripts resourceUrls of
             Inl e \<Rightarrow> Inl e
           | Inr (ms, r) \<Rightarrow> Inr (joinLines ms, r)))"

definition inspectorScripts :: "pageBuilder \<Rightarrow> registry \<Rightarrow> error + string \<times> registry" where
  "inspectorScripts b resourceUrls =
     (if enableInspector b
      then (case mapE (\<lambda>path. buildScriptElement b
                                (JStr (provider_urlBase (imported b) @ ''/'' @ path)) False False)
                   (provider_files (imported b)) resourceUrls of
              Inl e \<Rightarrow> Inl e
            | Inr (ms, r) \<Rightarrow> Inr (joinLines ms, r))
      else Inr ([], resourceUrls))"

definition headMarkup ::
  "string \<Rightarrow> string \<Rightarrow> string \<Rightarrow> string \<Rightarrow> string \<Rightarrow> string \<Rightarrow> string \<Rightarrow> string" where
  \<open>headMarkup metas hreflang links styles scripts extra inspector =
     trim (''\<newline>      <head>\<newline>        <meta charset="utf-8">\<newline>        <meta name="viewport" content="width=device-width, initial-scale=1.0">\<newline>        ''
           @ metas @ ''\<newline>        '' @ hreflang @ ''\<newline>        '' @ links
           @ ''\<newline>        '' @ styles @ ''\<newline>        '' @ scripts
           @ ''\<newline>        '' @ extra @ ''\<newline>        '' @ inspector
           @ ''\<newline>      </head>\<newline>    '')\<close>

definition buildHeadElement :: "pageBuilder \<Rightarrow> registry \<Rightarrow> error + string \<times> registry" where
  "buildHeadElement b resourceUrls =
     (case headMetaOptions b of Inl e \<Rightarrow> Inl e | Inr metaOpts \<Rightarrow>
     (case buildHeadMetaElements b metaOpts of Inl e \<Rightarrow> Inl e | Inr metas \<Rightarrow>
     (case buildHreflangLinkElements b of Inl e \<Rightarrow> Inl e | Inr hreflang \<Rightarrow>
     (case buildHeadLinkElements b
             (coalesce (getFieldValue b ''icon'') (optVal (headOption b head_icon))) of
        Inl e \<Rightarrow> Inl e | Inr links \<Rightarrow>
     (case headStylesheets b resourceUrls of Inl e \<Rightarrow> Inl e | Inr (styles, r1) \<Rightarrow>
     (case headScripts b r1 of Inl e \<Rightarrow> Inl e | Inr (scripts, r2) \<Rightarrow>
     (case optionalExtra b (headOption b head_extra) of Inl e \<Rightarrow> Inl e | Inr extra \<Rightarrow>
     (case inspectorScripts b r2 of Inl e \<Rightarrow> Inl e | Inr (inspector, r3) \<Rightarrow>
        Inr (headMarkup metas hreflang links styles scripts extra inspector, r3)))))))))"

section \<open>The document\<close>

definition buildBodyTag :: "pageBuilder \<Rightarrow> error + string" where
  \<open>buildBodyTag b =
     (case bodyOption b body_class of
        None \<Rightarrow> Inr ''<body>''
      | Some (ClassName className) \<Rightarrow>
          if className \<noteq> [] then Inr (''<body class="'' @ className @ ''">'') else Inr ''<body>''
      | Some (ClassFunction called) \<Rightarrow>
          (case called of
             Inl e \<Rightarrow> Inl e
           | Inr className \<Rightarrow> Inr (''<body class="'' @ className @ ''">'')))\<close>

text \<open>
  The array that \<^verbatim>\<open>(partials ?? []).map\<close> runs over: a value that is neither null, undefined
  nor an array has no \<^verbatim>\<open>map\<close> to call.
\<close>

definition partialsList :: "jsval \<Rightarrow> error + jsval list" where
  "partialsList partials =
     (if nullish partials then Inr []
      else case partials of JList xs \<Rightarrow> Inr xs | _ \<Rightarrow> Inl TypeError)"

definition builtinUnlessFalse ::
  "pageBuilder \<Rightarrow> string \<Rightarrow> registry \<Rightarrow> error + string \<times> registry" where
  "builtinUnlessFalse b name resourceUrls =
     (if getFieldValue b name = JBool False then Inr ([], resourceUrls)
      else buildBuiltinPartial b name resourceUrls)"

text \<open>
  The values that the template literal of \<^verbatim>\<open>buildDocument\<close> interpolates, in the order in
  which it evaluates them. The content partials are started in list order by the \<^verbatim>\<open>map\<close>,
  and each one touches the registry before its first \<^verbatim>\<open>await\<close>, so the registry passes
  through them in list order; \<^verbatim>\<open>Promise.all\<close> gives their results in list order. When
  several partials fail, JavaScript reports the rejection that settles first and the model
  the first in list order; whether the build fails is the same in both.
\<close>

record documentParts =
  dp_lang :: string
  dp_head :: string
  dp_bodyTag :: string
  dp_prepend :: string
  dp_header :: string
  dp_partials :: "string list"
  dp_footer :: string
  dp_extra :: string

definition buildDocumentParts ::
  "pageBuilder \<Rightarrow> registry \<Rightarrow> error + documentParts \<times> registry" where
  "buildDocumentParts b resourceUrls =
     (let partials = getFieldValue b ''partials'' in
      case buildHeadElement b resourceUrls of Inl e \<Rightarrow> Inl e | Inr (headElement, r1) \<Rightarrow>
     (case buildBodyTag b of Inl e \<Rightarrow> Inl e | Inr bodyTag \<Rightarrow>
     (case optionalExtra b (bodyOption b body_prepend) of Inl e \<Rightarrow> Inl e | Inr prepend \<Rightarrow>
     (case builtinUnlessFalse b ''header'' r1 of Inl e \<Rightarrow> Inl e | Inr (header, r2) \<Rightarrow>
     (case partialsList partials of Inl e \<Rightarrow> Inl e | Inr descriptors \<Rightarrow>
     (case mapE (buildPartialElement b) descriptors r2 of Inl e \<Rightarrow> Inl e | Inr (modules, r3) \<Rightarrow>
     (case builtinUnlessFalse b ''footer'' r3 of Inl e \<Rightarrow> Inl e | Inr (footer, r4) \<Rightarrow>
     (case optionalExtra b (bodyOption b body_extra) of Inl e \<Rightarrow> Inl e | Inr extra \<Rightarrow>
        Inr (\<lparr> dp_lang = getHtmlLang (doc_locale (doc b)),
                dp_head = headElement,
                dp_bodyTag = bodyTag,
                dp_prepend = prepend,
                dp_header = header,
                dp_partials = modules,
                dp_footer = footer,
                dp_extra = extra \<rparr>, r4)))))))))"

definition documentMarkup :: "documentParts \<Rightarrow> string" where
  \<open>documentMarkup parts =
     trim (''\<newline>      <!DOCTYPE html>\<newline>      <html lang="'' @ dp_lang parts
           @ ''" itemscope itemtype="https://schema.org/WebPage">\<newline>      ''
           @ dp_head parts
           @ ''\<newline>      '' @ dp_bodyTag parts
           @ ''\<newline>        '' @ dp_prepend parts
           @ ''\<newline>        <div class="main">\<newline>          '' @ dp_header parts
           @ ''\<newline>          '' @ joinLines (dp_partials parts)
           @ ''\<newline>          '' @ dp_footer parts
           @ ''\<newline>        </div>\<newline>        '' @ dp_extra parts
           @ ''\<newline>      </body>\<newline>      </html>\<newline>    '')\<close>

text \<open>
  The replacement \<^verbatim>\<open>html.replace(/^\s*\n/gm, '')\<close>. At the start of a line the pattern
  takes the longest run of white space and gives back as little as it must to end on a line
  feed: \<open>blankMatch\<close> is the length of that match at the head of a text, if there is one.
  A line starts at the start of the text and after a line feed or a carriage return.
\<close>

fun blankMatch :: "string \<Rightarrow> nat option" where
  "blankMatch [] = None"
| "blankMatch (c # cs) =
     (if isSpace c
      then (case blankMatch cs of
              Some k \<Rightarrow> Some (Suc k)
            | None \<Rightarrow> if c = CHR 0x0A then Some 1 else None)
      else None)"

definition isLineTerminator :: "char \<Rightarrow> bool" where
  "isLineTerminator c = (c = CHR 0x0A \<or> c = CHR 0x0D)"

text \<open>A match is never empty, so dropping \<open>k - 1\<close> after the first character drops the match.\<close>

fun stripFrom :: "bool \<Rightarrow> string \<Rightarrow> string" where
  "stripFrom lineStart [] = []"
| "stripFrom lineStart (c # cs) =
     (case (if lineStart then blankMatch (c # cs) else None) of
        Some k \<Rightarrow> stripFrom True (drop (k - 1) cs)
      | None \<Rightarrow> c # stripFrom (isLineTerminator c) cs)"

definition stripBlankLines :: "string \<Rightarrow> string" where
  "stripBlankLines html = stripFrom True html"

text \<open>Whether the pattern of the replacement still matches somewhere in a text.\<close>

fun blankFrom :: "bool \<Rightarrow> string \<Rightarrow> bool" where
  "blankFrom lineStart [] = False"
| "blankFrom lineStart (c # cs) =
     ((lineStart \<and> blankMatch (c # cs) \<noteq> None) \<or> blankFrom (isLineTerminator c) cs)"

definition hasBlankLine :: "string \<Rightarrow> bool" where
  "hasBlankLine html = blankFrom True html"

definition buildDocument :: "pageBuilder \<Rightarrow> registry \<Rightarrow> error + string \<times> registry" where
  "buildDocument b resourceUrls =
     (case buildDocumentParts b resourceUrls of
        Inl e \<Rightarrow> Inl e
      | Inr (parts, r) \<Rightarrow>
          (let html = documentMarkup parts
           in if opt_beautify (options b) = Some False then Inr (html, r)
              else Inr (jsBeautify_html (imported b) (stripBlankLines html) 2, r)))"


section \<open>An example site\<close>

text \<open>
  A small pod in the shape of the repository's example: one page with two \<open>hero\<close>
  partials, a header view and no footer view, a stylesheet that the head and the partial
  both declare, and stand-ins for the collaborators.
\<close>

definition exampleUrl :: "string \<Rightarrow> url" where
  "exampleUrl p = \<lparr> url_path = p, url_string = ''http://localhost'' @ p \<rparr>"

definition exampleStaticFile :: "string \<Rightarrow> staticFile" where
  "exampleStaticFile p =
     \<lparr> sf_podPath = p,
       sf_url = (if take 6 p = ''/dist/'' then Some (exampleUrl (''/static/'' @ drop 6 p)) else None),
       sf_fingerprint = ''d41d8c'',
       sf_exists = (p \<in> set [''/dist/css/main.css'', ''/dist/js/main.js'',
                             ''/dist/css/partials/hero.css'', ''/dist/js/partials/hero.js'']),
       sf_text = ''[StaticFile: '' @ p @ '']'' \<rparr>"

definition examplePage :: document where
  "examplePage =
     \<lparr> doc_podPath = ''/content/pages/index.yaml'',
       doc_locale = ''en'',
       doc_defaultLocale = ''en'',
       doc_locales = [''en'', ''de'', ''fr_CA''],
       doc_fields =
         [(''partials'',
           JList [JObj [(''partial'', JStr ''hero''), (''title'', JStr ''Hello World 1!'')],
                  JObj [(''partial'', JStr ''hero''), (''title'', JStr ''Hello World 2!'')]])],
       doc_collection = Some [(''title'', JStr ''Pages'')],
       doc_url = Some (exampleUrl ''/pages/'') \<rparr>"

definition exampleSibling :: "string \<Rightarrow> string \<Rightarrow> document" where
  "exampleSibling p l =
     \<lparr> doc_podPath = p,
       doc_locale = l,
       doc_defaultLocale = ''en'',
       doc_locales = [''en'', ''de'', ''fr_CA''],
       doc_fields = [],
       doc_collection = None,
       doc_url = Some (exampleUrl (if l = ''en'' then ''/pages/'' else ''/'' @ l @ ''/pages/'')) \<rparr>"

definition exampleEngine :: engine where
  "exampleEngine =
     \<lparr> render = (\<lambda>p partial. Inr (''<div>'' @ p @ ''</div>'')),
       renderFromString = (\<lambda>template partial. Inr template) \<rparr>"

definition examplePod :: pod where
  "examplePod =
     \<lparr> env_dev = False,
       env_name = ''prod'',
       fileExists = (\<lambda>p. p = ''/views/partials/header.njk''),
       pod_doc = exampleSibling,
       pod_staticFile = exampleStaticFile,
       getEngineByFilename = (\<lambda>p. exampleEngine) \<rparr>"

definition exampleInterpolate :: "string \<Rightarrow> jsval \<Rightarrow> string" where
  \<open>exampleInterpolate pathFormat ctx =
     replaceFirst ''${partial.partial}'' (toStr (getProp (getProp ctx ''partial'') ''partial''))
       pathFormat\<close>

definition exampleRelative :: "jsval \<Rightarrow> error + string" where
  "exampleRelative v =
     (case v of
        JStr s \<Rightarrow> Inr (if take 1 s = ''/'' then ''./..'' @ s else s)
      | _ \<Rightarrow> Inl TypeError)"

definition exampleModules :: modules where
  "exampleModules =
     \<lparr> interpolate = exampleInterpolate,
       url_relative = exampleRelative,
       readFileSync = (\<lambda>p. Inl (Failure ''ENOENT'')),
       jsBeautify_html = (\<lambda>html indent. html),
       provider_files = [''page-builder-ui.min.js''],
       provider_urlBase = ''/_page-builder'' \<rparr>"

definition exampleHead :: headOptions where
  "exampleHead =
     \<lparr> head_description = None,
       head_icon = None,
       head_image = None,
       head_scripts = Some [JFile (exampleStaticFile ''/dist/js/main.js'')],
       head_siteName = None,
       head_stylesheets =
         Some [JStr ''https://fonts.googleapis.com/css?family=Roboto'',
               JFile (exampleStaticFile ''/dist/css/main.css''),
               JFile (exampleStaticFile ''/dist/css/partials/hero.css'')],
       head_twitterSite = None,
       head_themeColor = None,
       head_noIndex = None,
       head_extra = None \<rparr>"

definition exampleOptions :: pageBuilderOptions where
  "exampleOptions =
     \<lparr> opt_inspector = None,
       opt_beautify = None,
       opt_head = Some exampleHead,
       opt_body = None,
       opt_partialPaths = None \<rparr>"

definition exampleBuilder :: pageBuilder where
  "exampleBuilder =
     \<lparr> doc = examplePage,
       pod = examplePod,
       context_doc = examplePage,
       options = exampleOptions,
       imported = exampleModules \<rparr>"






definition inspected :: pageBuilder where
  "inspected = exampleBuilder \<lparr> options := exampleOptions \<lparr> opt_inspector := Some True \<rparr> \<rparr>"

definition unbeautified :: pageBuilder where
  "unbeautified = exampleBuilder \<lparr> options := exampleOptions \<lparr> opt_beautify := Some False \<rparr> \<rparr>"

text \<open>The builders that work on the example site and may differ in the beautify option.\<close>

definition onExampleSite :: "pageBuilder \<Rightarrow> bool" where
  "onExampleSite b =
     (doc b = examplePage \<and> pod b = examplePod \<and> context_doc b = examplePage
      \<and> imported b = exampleModules \<and> opt_head (options b) = Some exampleHead
      \<and> opt_body (options b) = None \<and> opt_inspector (options b) = None
      \<and> opt_partialPaths (options b) = None)"

text \<open>The registry of the example page after its head, and after its body.\<close>

definition exampleHeadRegistry :: registry where
  "exampleHeadRegistry =
     [JStr ''https://fonts.googleapis.com/css?family=Roboto'',
      JStr ''./../static/css/main.css?fingerprint=d41d8c'',
      JStr ''./../static/css/partials/hero.css?fingerprint=d41d8c'',
      JStr ''./../static/js/main.js?fingerprint=d41d8c'']"

definition exampleRegistry :: registry where
  "exampleRegistry =
     exampleHeadRegistry @ [JStr ''./../static/js/partials/hero.js?fingerprint=d41d8c'']"

section \<open>Field resolution\<close>




section \<open>Fingerprints\<close>

text \<open>
  Claim C5: for an asset with a URL, the href ends with \<^verbatim>\<open>?fingerprint=<value>\<close> when
  fingerprint inclusion is not explicitly disabled and the path has no \<^verbatim>\<open>?\<close>, and is the
  path unchanged when the path has one. \<^verbatim>\<open>getUrl\<close> does the same for an asset whose
  fingerprint is not empty. The URL under which the asset is then emitted is
  \<^verbatim>\<open>Url.relative\<close> of exactly that href: nothing more is appended.
\<close>

theorem fingerprint_appended_unless_query:
  assumes "sf_url f = Some u"
  shows "((\<forall>o1. opts = Some o1 \<longrightarrow> includeFingerprint o1 \<noteq> Some False) \<and> CHR ''?'' \<notin> set (url_path u)
          \<longrightarrow> getHrefFromResource (JFile f) opts
              = JStr (url_path u @ ''?fingerprint='' @ sf_fingerprint f))
       \<and> (CHR ''?'' \<in> set (url_path u) \<longrightarrow> getHrefFromResource (JFile f) opts = JStr (url_path u))
       \<and> (sf_fingerprint f \<noteq> [] \<and> CHR ''?'' \<notin> set (url_path u)
          \<longrightarrow> getUrl b (JFile f) None = Inr (JStr (url_path u @ ''?fingerprint='' @ sf_fingerprint f)))
       \<and> (CHR ''?'' \<in> set (url_path u) \<longrightarrow> getUrl b (JFile f) None = Inr (JStr (url_path u)))
       \<and> (\<forall>r. CHR ''?'' \<notin> set (url_path u)
              \<and> url_relative (imported b)
                   (JStr (url_path u @ ''?fingerprint='' @ sf_fingerprint f)) = Inr r
          \<longrightarrow> resolvedUrl b (JFile f) = Inr (JStr r))"
  using assms
  by (auto simp: getHrefFromResource_def getUrl_def optUrl_def Let_def resolvedUrl_def relativeOnly_def
      split: option.splits)

theorem fingerprint_appended_unless_query_witness:
  "getHrefFromResource (JFile (exampleStaticFile ''/dist/css/main.css'')) None
     = JStr ''/static/css/main.css?fingerprint=d41d8c''
   \<and> getUrl exampleBuilder (JFile (exampleStaticFile ''/dist/css/main.css'')) None
     = Inr (JStr ''/static/css/main.css?fingerprint=d41d8c'')
   \<and> resolvedUrl exampleBuilder (JFile (exampleStaticFile ''/dist/css/main.css''))
     = Inr (JStr ''./../static/css/main.css?fingerprint=d41d8c'')"
proof -
  let ?f = "exampleStaticFile ''/dist/css/main.css''"
  let ?u = "exampleUrl ''/static/css/main.css''"
  have u: "sf_url ?f = Some ?u" by (simp add: exampleStaticFile_def)
  have p: "url_path ?u = ''/static/css/main.css''" by (simp add: exampleUrl_def)
  have q: "CHR ''?'' \<notin> set (url_path ?u)" by (simp add: p)
  have fp: "sf_fingerprint ?f = ''d41d8c''" by (simp add: exampleStaticFile_def)
  have rel: "url_relative (imported exampleBuilder)
               (JStr (url_path ?u @ ''?fingerprint='' @ sf_fingerprint ?f))
             = Inr ''./../static/css/main.css?fingerprint=d41d8c''"
    by (simp add: exampleBuilder_def exampleModules_def exampleRelative_def p fp)
  from fingerprint_appended_unless_query[OF u, of None exampleBuilder] q fp rel p
  show ?thesis by simp
qed

section \<open>Each resource once\<close>

lemma emit_cases:
  assumes "emit b e reg = Inr (m, reg')"
  shows "\<exists>u. resolvedUrl b (emissionResource e) = Inr u
            \<and> ((u \<in> set reg \<and> m = [] \<and> reg' = reg) \<or> (u \<notin> set reg \<and> truthy u \<and> reg' = reg @ [u]))"
  using assms
  by (cases e)
     (auto simp: buildScriptElement_def buildStyleLinkElement_def resolvedUrl_def Let_def
           split: sum.splits if_splits)

lemma emit_registered:
  "resolvedUrl b (emissionResource e) = Inr u \<Longrightarrow> u \<in> set reg \<Longrightarrow> emit b e reg = Inr ([], reg)"
  by (cases e)
     (auto simp: buildScriptElement_def buildStyleLinkElement_def resolvedUrl_def Let_def)


lemma emit_mono: "emit b e reg = Inr (m, reg') \<Longrightarrow> set reg \<subseteq> set reg'"
  by (drule emit_cases) auto

lemma mapE_emit_mono: "mapE (emit b) es reg = Inr (ms, reg') \<Longrightarrow> set reg \<subseteq> set reg'"
proof (induction es arbitrary: reg ms reg')
  case Nil
  then show ?case by simp
next
  case (Cons e es)
  from Cons.prems obtain m r1 ms' where
    e: "emit b e reg = Inr (m, r1)" and rest: "mapE (emit b) es r1 = Inr (ms', reg')"
    by (auto split: sum.splits prod.splits)
  from emit_mono[OF e] Cons.IH[OF rest] show ?case by blast
qed





section \<open>A resource without a URL\<close>















section \<open>Canonical and alternate links\<close>

lemma getUrl_sibling: "getUrl b (siblingUrl b l) None = Inr (siblingUrl b l)"
  by (simp add: getUrl_def siblingUrl_def optUrl_def split: option.splits)

lemma mapPure_total: "(\<And>x. f x = Inr (g x)) \<Longrightarrow> mapPure f xs = Inr (map g xs)"
  by (induction xs) simp_all

lemma alternateLink_total:
  \<open>alternateLink b l =
     Inr (''<link href="'' @ toStr (siblingUrl b l) @ ''" hreflang="'' @ getHtmlLang l
          @ ''" rel="alternate">'')\<close>
  by (simp add: alternateLink_def getUrl_sibling)

text \<open>
  Claim C6: the block is the canonical link, present exactly when the page has a URL;
  then the \<^verbatim>\<open>x-default\<close> link to the sibling in the default locale, present when that
  sibling has a URL; then one alternate link for every locale of the page other than the
  default one, in the order of the locale set. The function never throws.
\<close>

theorem hreflang_block:
  \<open>buildHreflangLinkElements b =
     Inr (hreflangMarkup
            (case doc_url (doc b) of
               None \<Rightarrow> []
             | Some u \<Rightarrow> ''<link href="'' @ url_string u @ ''" rel="canonical">'')
            (case doc_url (pod_doc (pod b) (doc_podPath (doc b)) (doc_defaultLocale (doc b))) of
               None \<Rightarrow> []
             | Some u \<Rightarrow> ''<link href="'' @ url_string u @ ''" hreflang="x-default" rel="alternate">'')
            (map (\<lambda>l. ''<link href="''
                        @ (case doc_url (pod_doc (pod b) (doc_podPath (doc b)) l) of
                             None \<Rightarrow> ''undefined''
                           | Some u \<Rightarrow> url_string u)
                        @ ''" hreflang="'' @ getHtmlLang l @ ''" rel="alternate">'')
                 (filter (\<lambda>l. l \<noteq> doc_defaultLocale (doc b)) (doc_locales (doc b)))))\<close>
proof -
  have links: \<open>mapPure (alternateLink b) (otherLocales b) =
     Inr (map (\<lambda>l. ''<link href="'' @ toStr (siblingUrl b l) @ ''" hreflang="'' @ getHtmlLang l
          @ ''" rel="alternate">'') (otherLocales b))\<close>
    by (rule mapPure_total) (rule alternateLink_total)
  have str: "\<And>l. toStr (siblingUrl b l)
       = (case doc_url (pod_doc (pod b) (doc_podPath (doc b)) l) of
            None \<Rightarrow> ''undefined'' | Some u \<Rightarrow> url_string u)"
    by (simp add: siblingUrl_def optUrl_def split: option.splits)
  have dflt: \<open>defaultLink (siblingUrl b (doc_defaultLocale (doc b)))
       = (case doc_url (pod_doc (pod b) (doc_podPath (doc b)) (doc_defaultLocale (doc b))) of
            None \<Rightarrow> []
          | Some u \<Rightarrow> ''<link href="'' @ url_string u @ ''" hreflang="x-default" rel="alternate">'')\<close>
    by (simp add: defaultLink_def whenTruthy_def siblingUrl_def optUrl_def split: option.splits)
  have canon: \<open>canonicalLink b
       = (case doc_url (doc b) of
            None \<Rightarrow> []
          | Some u \<Rightarrow> ''<link href="'' @ url_string u @ ''" rel="canonical">'')\<close>
    by (simp add: canonicalLink_def split: option.splits)
  show ?thesis
    unfolding buildHreflangLinkElements_def getUrl_sibling links
    by (simp add: dflt canon str otherLocales_def)
qed

theorem hreflang_block_witness:
  \<open>buildHreflangLinkElements exampleBuilder =
     Inr (''<link href="http://localhost/pages/" rel="canonical">\<newline>      ''
          @ ''<link href="http://localhost/pages/" hreflang="x-default" rel="alternate">\<newline>      ''
          @ ''<link href="http://localhost/de/pages/" hreflang="de" rel="alternate">\<newline>''
          @ ''<link href="http://localhost/fr_CA/pages/" hreflang="fr-CA" rel="alternate">'')\<close>
proof -
  have \<open>hreflangMarkup ''<link href="http://localhost/pages/" rel="canonical">''
           ''<link href="http://localhost/pages/" hreflang="x-default" rel="alternate">''
           [''<link href="http://localhost/de/pages/" hreflang="de" rel="alternate">'',
            ''<link href="http://localhost/fr_CA/pages/" hreflang="fr-CA" rel="alternate">'']
        = ''<link href="http://localhost/pages/" rel="canonical">\<newline>      ''
          @ ''<link href="http://localhost/pages/" hreflang="x-default" rel="alternate">\<newline>      ''
          @ ''<link href="http://localhost/de/pages/" hreflang="de" rel="alternate">\<newline>''
          @ ''<link href="http://localhost/fr_CA/pages/" hreflang="fr-CA" rel="alternate">''\<close>
    by code_simp
  moreover have "getHtmlLang ''de'' = ''de''" "getHtmlLang ''fr_CA'' = ''fr-CA''"
    by (simp_all add: getHtmlLang_def)
  ultimately show ?thesis
    using hreflang_block[of exampleBuilder]
    by (simp add: exampleBuilder_def examplePage_def examplePod_def exampleSibling_def
        exampleUrl_def)
qed

section \<open>Partials without their conventional assets\<close>

lemma loadPartialResources_none:
  assumes "\<not> sf_exists (partialAsset b (pp_css (builderPartialPaths b)) name)"
    and "\<not> sf_exists (partialAsset b (pp_js (builderPartialPaths b)) name)"
  shows "loadPartialResources b name reg = Inr ([], reg)"
  using assms by (simp add: loadPartialResources_def)

lemma loadPartialResources_script_only:
  assumes "\<not> sf_exists (partialAsset b (pp_css (builderPartialPaths b)) name)"
    and "sf_exists (partialAsset b (pp_js (builderPartialPaths b)) name)"
  shows "loadPartialResources b name reg =
     (case buildScriptElement b (JFile (partialAsset b (pp_js (builderPartialPaths b)) name))
             False False reg of
        Inl e \<Rightarrow> Inl e
      | Inr (m, r) \<Rightarrow> Inr ([JStr m], r))"
  using assms by (simp add: loadPartialResources_def split: sum.splits)

lemma loadPartialResources_style_only:
  assumes "sf_exists (partialAsset b (pp_css (builderPartialPaths b)) name)"
    and "\<not> sf_exists (partialAsset b (pp_js (builderPartialPaths b)) name)"
  shows "loadPartialResources b name reg =
     (case buildStyleLinkElement b (JFile (partialAsset b (pp_css (builderPartialPaths b)) name))
             True reg of
        Inl e \<Rightarrow> Inl e
      | Inr (m, r) \<Rightarrow> Inr ([JStr m], r))"
  using assms by (simp add: loadPartialResources_def split: sum.splits prod.splits)

text \<open>
  Claim C9: for a descriptor that is an object and whose template renders, a conventional
  stylesheet or script that does not exist is passed over. With neither file the element
  is the module block with the rendered content, nothing is emitted or registered, and
  nothing is thrown; with one of the two the only markup before the block is that of the
  file that exists.
\<close>

theorem missing_asset_is_skipped:
  assumes "propE partial ''partial'' = Inr pp"
    and "renderPartialTemplate b partial pp = Inr html"
  shows "(\<not> sf_exists (partialAsset b (pp_css (builderPartialPaths b)) (partialName pp))
          \<and> \<not> sf_exists (partialAsset b (pp_js (builderPartialPaths b)) (partialName pp))
          \<longrightarrow> buildPartialElement b partial reg = Inr (moduleMarkup b [] pp html, reg))
       \<and> (\<not> sf_exists (partialAsset b (pp_css (builderPartialPaths b)) (partialName pp))
          \<and> sf_exists (partialAsset b (pp_js (builderPartialPaths b)) (partialName pp))
          \<longrightarrow> buildPartialElement b partial reg =
              (case buildScriptElement b
                      (JFile (partialAsset b (pp_js (builderPartialPaths b)) (partialName pp)))
                      False False reg of
                 Inl e \<Rightarrow> Inl e
               | Inr (m, r) \<Rightarrow> Inr (moduleMarkup b [JStr m] pp html, r)))
       \<and> (sf_exists (partialAsset b (pp_css (builderPartialPaths b)) (partialName pp))
          \<and> \<not> sf_exists (partialAsset b (pp_js (builderPartialPaths b)) (partialName pp))
          \<longrightarrow> buildPartialElement b partial reg =
              (case buildStyleLinkElement b
                      (JFile (partialAsset b (pp_css (builderPartialPaths b)) (partialName pp)))
                      True reg of
                 Inl e \<Rightarrow> Inl e
               | Inr (m, r) \<Rightarrow> Inr (moduleMarkup b [JStr m] pp html, r)))"
  using assms
  by (auto simp: buildPartialElement_def loadPartialResources_none loadPartialResources_script_only
      loadPartialResources_style_only split: sum.splits prod.splits)

theorem missing_asset_is_skipped_witness:
  \<open>buildPartialElement exampleBuilder (JObj [(''partial'', JStr ''teaser'')]) []
     = Inr (''<page-module>\<newline><div>/views/partials/teaser.njk</div>\<newline></page-module>'', [])\<close>
proof -
  let ?p = "JObj [(''partial'', JStr ''teaser'')]"
  have pp: "propE ?p ''partial'' = Inr (JStr ''teaser'')"
    by (simp add: propE_def nullish_def optVal_def)
  have r: "renderPartialTemplate exampleBuilder ?p (JStr ''teaser'')
           = Inr (JStr ''<div>/views/partials/teaser.njk</div>'')"
    by code_simp
  have css: "\<not> sf_exists (partialAsset exampleBuilder (pp_css (builderPartialPaths exampleBuilder))
                            (partialName (JStr ''teaser'')))"
    by code_simp
  have js: "\<not> sf_exists (partialAsset exampleBuilder (pp_js (builderPartialPaths exampleBuilder))
                            (partialName (JStr ''teaser'')))"
    by code_simp
  have m: \<open>moduleMarkup exampleBuilder [] (JStr ''teaser'') (JStr ''<div>/views/partials/teaser.njk</div>'')
           = ''<page-module>\<newline><div>/views/partials/teaser.njk</div>\<newline></page-module>''\<close>
    by code_simp
  from missing_asset_is_skipped[OF pp r, of "[]"] css js m show ?thesis by simp
qed


section \<open>Descriptors that name no template\<close>

lemma joinWith_Cons: "ys \<noteq> [] \<Longrightarrow> joinWith sep (x # ys) = x @ sep @ joinWith sep ys"
  by (cases ys) simp_all

lemma joinWith_append:
  "joinWith sep (xs @ ys) =
     (if xs = [] then joinWith sep ys
      else if ys = [] then joinWith sep xs
      else joinWith sep xs @ sep @ joinWith sep ys)"
  by (induction sep xs rule: joinWith.induct) (auto simp: joinWith_Cons)

lemma arrayJoin_append:
  "arrayJoin sep (xs @ ys) =
     (if xs = [] then arrayJoin sep ys
      else if ys = [] then arrayJoin sep xs
      else arrayJoin sep xs @ sep @ arrayJoin sep ys)"
  by (simp add: arrayJoin_def joinWith_append)

lemma moduleMarkup_undefined:
  \<open>moduleMarkup b loaded pp JUndefined
     = arrayJoin ''\<newline>'' loaded
       @ (if loaded = [] then [] else ''\<newline>'')
       @ ''<page-module>\<newline>''
       @ (if enableInspector b \<and> getProp pp ''includeInspector'' \<noteq> JBool False
          then inspectorMarker (partialName pp) @ ''\<newline>'' else [])
       @ ''\<newline></page-module>''\<close>
  by (simp add: moduleMarkup_def arrayJoin_append) (simp add: arrayJoin_def nullish_def)

text \<open>
  Claim C10: for a descriptor whose \<^verbatim>\<open>partial\<close> is neither a text nor an object with an
  \<^verbatim>\<open>absolutePath\<close>, neither rendering branch runs and \<^verbatim>\<open>html\<close> stays undefined; once the
  conventional assets are loaded the element is returned without an error: the opening
  marker, the inspector marker when the inspector is enabled and not opted out of, an
  empty line where the content would be, and the closing marker.
\<close>

theorem shapeless_partial_renders_empty:
  assumes "propE partial ''partial'' = Inr pp"
    and "\<not> isString pp"
    and "\<not> truthy (getProp pp ''absolutePath'')"
  shows \<open>renderPartialTemplate b partial pp = Inr JUndefined
       \<and> (\<forall>loaded r. loadPartialResources b (partialName pp) reg = Inr (loaded, r)
            \<longrightarrow> buildPartialElement b partial reg
                = Inr (arrayJoin ''\<newline>'' loaded
                       @ (if loaded = [] then [] else ''\<newline>'')
                       @ ''<page-module>\<newline>''
                       @ (if enableInspector b \<and> getProp pp ''includeInspector'' \<noteq> JBool False
                          then inspectorMarker (partialName pp) @ ''\<newline>'' else [])
                       @ ''\<newline></page-module>'', r))
       \<and> (\<not> sf_exists (partialAsset b (pp_css (builderPartialPaths b)) (partialName pp))
          \<and> \<not> sf_exists (partialAsset b (pp_js (builderPartialPaths b)) (partialName pp))
          \<longrightarrow> buildPartialElement b partial reg
              = Inr (''<page-module>\<newline>''
                     @ (if enableInspector b \<and> getProp pp ''includeInspector'' \<noteq> JBool False
                        then inspectorMarker (partialName pp) @ ''\<newline>'' else [])
                     @ ''\<newline></page-module>'', reg))\<close>
proof (intro conjI allI impI)
  show r: "renderPartialTemplate b partial pp = Inr JUndefined"
    using assms by (simp add: renderPartialTemplate_def)
  show "buildPartialElement b partial reg
        = Inr (arrayJoin ''\<newline>'' loaded
               @ (if loaded = [] then [] else ''\<newline>'')
               @ ''<page-module>\<newline>''
               @ (if enableInspector b \<and> getProp pp ''includeInspector'' \<noteq> JBool False
                  then inspectorMarker (partialName pp) @ ''\<newline>'' else [])
               @ ''\<newline></page-module>'', r)"
    if "loadPartialResources b (partialName pp) reg = Inr (loaded, r)" for loaded r
    using that assms(1) r
    by (simp add: buildPartialElement_def moduleMarkup_undefined)
  show "buildPartialElement b partial reg
        = Inr (''<page-module>\<newline>''
               @ (if enableInspector b \<and> getProp pp ''includeInspector'' \<noteq> JBool False
                  then inspectorMarker (partialName pp) @ ''\<newline>'' else [])
               @ ''\<newline></page-module>'', reg)"
    if "\<not> sf_exists (partialAsset b (pp_css (builderPartialPaths b)) (partialName pp))
        \<and> \<not> sf_exists (partialAsset b (pp_js (builderPartialPaths b)) (partialName pp))"
    using that assms(1) r
    by (simp add: buildPartialElement_def loadPartialResources_none moduleMarkup_undefined
        arrayJoin_def)
qed

theorem shapeless_partial_renders_empty_witness:
  \<open>buildPartialElement exampleBuilder (JObj [(''title'', JStr ''Untitled'')]) []
     = Inr (''<page-module>\<newline>\<newline></page-module>'', [])
   \<and> buildPartialElement inspected (JObj [(''partial'', JObj [(''partial'', JStr ''teaser'')])]) []
     = Inr (''<page-module>\<newline>\<newline>        <page-module-inspector partial="teaser"></page-module-inspector>\<newline>      \<newline>\<newline></page-module>'', [])\<close>
proof -
  let ?p = "JObj [(''title'', JStr ''Untitled'')]"
  let ?q = "JObj [(''partial'', JObj [(''partial'', JStr ''teaser'')])]"
  let ?qq = "JObj [(''partial'', JStr ''teaser'')]"
  have p1: "propE ?p ''partial'' = Inr JUndefined"
    by (simp add: propE_def nullish_def optVal_def)
  have p2: "\<not> isString JUndefined" "\<not> truthy (getProp JUndefined ''absolutePath'')"
    by (simp_all add: isString_def)
  have q1: "propE ?q ''partial'' = Inr ?qq"
    by (simp add: propE_def nullish_def optVal_def)
  have q2: "\<not> isString ?qq" "\<not> truthy (getProp ?qq ''absolutePath'')"
    by (simp_all add: isString_def optVal_def)
  have a1: "\<not> sf_exists (partialAsset exampleBuilder (pp_css (builderPartialPaths exampleBuilder))
                            (partialName JUndefined))
            \<and> \<not> sf_exists (partialAsset exampleBuilder (pp_js (builderPartialPaths exampleBuilder))
                            (partialName JUndefined))"
    by code_simp
  have a2: "\<not> sf_exists (partialAsset inspected (pp_css (builderPartialPaths inspected))
                            (partialName ?qq))
            \<and> \<not> sf_exists (partialAsset inspected (pp_js (builderPartialPaths inspected))
                            (partialName ?qq))"
    by code_simp
  have i1: "\<not> enableInspector exampleBuilder" by code_simp
  have i2: "enableInspector inspected \<and> getProp ?qq ''includeInspector'' \<noteq> JBool False"
    by code_simp
  have n2: \<open>inspectorMarker (partialName ?qq)
     = ''\<newline>        <page-module-inspector partial="teaser"></page-module-inspector>\<newline>      ''\<close>
    by code_simp
  from shapeless_partial_renders_empty[OF p1 p2, of exampleBuilder "[]"] a1 i1
  have one: \<open>buildPartialElement exampleBuilder ?p []
     = Inr (''<page-module>\<newline>\<newline></page-module>'', [])\<close>
    by simp
  from shapeless_partial_renders_empty[OF q1 q2, of inspected "[]"] a2 i2 n2
  have two: \<open>buildPartialElement inspected ?q []
     = Inr (''<page-module>\<newline>\<newline>        <page-module-inspector partial="teaser"></page-module-inspector>\<newline>      \<newline>\<newline></page-module>'', [])\<close>
    by simp
  from one two show ?thesis by blast
qed

section \<open>The example page, built\<close>

text \<open>
  The stages of building the example page, with the markup left as it is: what each stage
  registers, and that none of them throws.
\<close>

lemma buildHreflangLinkElements_total: "\<exists>s. buildHreflangLinkElements b = Inr s"
  by (simp add: buildHreflangLinkElements_def getUrl_sibling
      mapPure_total[of "alternateLink b", OF alternateLink_total])

lemma onExampleSite_simps:
  assumes "onExampleSite b"
  shows "doc b = examplePage" "pod b = examplePod" "context_doc b = examplePage"
    "imported b = exampleModules" "opt_head (options b) = Some exampleHead"
    "opt_body (options b) = None" "opt_inspector (options b) = None"
    "opt_partialPaths (options b) = None"
  using assms by (simp_all add: onExampleSite_def)

lemma examplePod_simps:
  "env_dev examplePod = False"
  "env_name examplePod = ''prod''"
  "fileExists examplePod p = (p = ''/views/partials/header.njk'')"
  "pod_doc examplePod = exampleSibling"
  "pod_staticFile examplePod = exampleStaticFile"
  "getEngineByFilename examplePod p = exampleEngine"
  by (simp_all add: examplePod_def)

lemma exampleModules_simps:
  "interpolate exampleModules = exampleInterpolate"
  "url_relative exampleModules = exampleRelative"
  "provider_files exampleModules = [''page-builder-ui.min.js'']"
  "provider_urlBase exampleModules = ''/_page-builder''"
  by (simp_all add: exampleModules_def)

lemma exampleHead_simps:
  "head_description exampleHead = None"
  "head_icon exampleHead = None"
  "head_image exampleHead = None"
  "head_scripts exampleHead = Some [JFile (exampleStaticFile ''/dist/js/main.js'')]"
  "head_siteName exampleHead = None"
  "head_stylesheets exampleHead =
     Some [JStr ''https://fonts.googleapis.com/css?family=Roboto'',
           JFile (exampleStaticFile ''/dist/css/main.css''),
           JFile (exampleStaticFile ''/dist/css/partials/hero.css'')]"
  "head_twitterSite exampleHead = None"
  "head_themeColor exampleHead = None"
  "head_noIndex exampleHead = None"
  "head_extra exampleHead = None"
  by (simp_all add: exampleHead_def)

lemma examplePage_simps:
  "doc_locale examplePage = ''en''"
  "doc_url examplePage = Some (exampleUrl ''/pages/'')"
  "doc_collection examplePage = Some [(''title'', JStr ''Pages'')]"
  "doc_fields examplePage =
     [(''partials'',
       JList [JObj [(''partial'', JStr ''hero''), (''title'', JStr ''Hello World 1!'')],
              JObj [(''partial'', JStr ''hero''), (''title'', JStr ''Hello World 2!'')]])]"
  by (simp_all add: examplePage_def)

lemma exampleStaticFile_simps:
  "sf_fingerprint (exampleStaticFile p) = ''d41d8c''"
  "take 6 p = ''/dist/'' \<Longrightarrow> sf_url (exampleStaticFile p) = Some (exampleUrl (''/static/'' @ drop 6 p))"
  "sf_exists (exampleStaticFile p)
     = (p \<in> set [''/dist/css/main.css'', ''/dist/js/main.js'',
                  ''/dist/css/partials/hero.css'', ''/dist/js/partials/hero.js''])"
  by (simp_all add: exampleStaticFile_def)

lemma resolvedUrl_text:
  "s \<noteq> [] \<Longrightarrow> url_relative (imported b) (JStr s) = Inr r \<Longrightarrow> resolvedUrl b (JStr s) = Inr (JStr r)"
  by (simp add: resolvedUrl_def getHrefFromResource_def getUrl_def relativeOnly_def)

lemma resolvedUrl_example_asset:
  "onExampleSite b \<Longrightarrow> take 6 p = ''/dist/'' \<Longrightarrow> CHR ''?'' \<notin> set (drop 6 p) \<Longrightarrow>
   resolvedUrl b (JFile (exampleStaticFile p))
     = Inr (JStr (''./../static/'' @ drop 6 p @ ''?fingerprint=d41d8c''))"
  by (simp add: resolvedUrl_def getHrefFromResource_def getUrl_def relativeOnly_def Let_def
      exampleStaticFile_simps onExampleSite_simps exampleModules_simps exampleRelative_def
      exampleUrl_def)

lemma emit_new:
  "resolvedUrl b (emissionResource e) = Inr u \<Longrightarrow> truthy u \<Longrightarrow> u \<notin> set reg
   \<Longrightarrow> \<exists>m. emit b e reg = Inr (m, reg @ [u])"
  by (cases e)
     (auto simp: buildScriptElement_def buildStyleLinkElement_def resolvedUrl_def Let_def)

lemma style_new:
  "resolvedUrl b r = Inr u \<Longrightarrow> truthy u \<Longrightarrow> u \<notin> set reg
   \<Longrightarrow> \<exists>m. buildStyleLinkElement b r a reg = Inr (m, reg @ [u])"
  using emit_new[of b "EmitStyleLink r a" u reg] by simp

lemma script_new:
  "resolvedUrl b r = Inr u \<Longrightarrow> truthy u \<Longrightarrow> u \<notin> set reg
   \<Longrightarrow> \<exists>m. buildScriptElement b r d a reg = Inr (m, reg @ [u])"
  using emit_new[of b "EmitScript r d a" u reg] by simp

lemma style_old:
  "resolvedUrl b r = Inr u \<Longrightarrow> u \<in> set reg \<Longrightarrow> buildStyleLinkElement b r a reg = Inr ([], reg)"
  using emit_registered[of b "EmitStyleLink r a" u reg] by simp

lemma script_old:
  "resolvedUrl b r = Inr u \<Longrightarrow> u \<in> set reg \<Longrightarrow> buildScriptElement b r d a reg = Inr ([], reg)"
  using emit_registered[of b "EmitScript r d a" u reg] by simp

lemma example_stylesheets:
  assumes site: "onExampleSite b"
  shows "\<exists>m. headStylesheets b [] = Inr (m, take 3 exampleHeadRegistry)"
proof -
  let ?fonts = "JStr ''https://fonts.googleapis.com/css?family=Roboto''"
  have "resolvedUrl b ?fonts = Inr ?fonts"
    by (rule resolvedUrl_text)
       (simp_all add: onExampleSite_simps[OF site] exampleModules_simps exampleRelative_def)
  from style_new[OF this, of "[]" True] obtain m1 where
    1: "buildStyleLinkElement b ?fonts True [] = Inr (m1, [?fonts])" by auto
  from style_new[OF resolvedUrl_example_asset[OF site, of "''/dist/css/main.css''"], of "[?fonts]" True]
  obtain m2 where
    2: "buildStyleLinkElement b (JFile (exampleStaticFile ''/dist/css/main.css'')) True
          [?fonts] = Inr (m2, take 2 exampleHeadRegistry)"
    by (auto simp: exampleHeadRegistry_def)
  from style_new[OF resolvedUrl_example_asset[OF site, of "''/dist/css/partials/hero.css''"],
      of "take 2 exampleHeadRegistry" True]
  obtain m3 where
    3: "buildStyleLinkElement b (JFile (exampleStaticFile ''/dist/css/partials/hero.css''))
          True (take 2 exampleHeadRegistry) = Inr (m3, take 3 exampleHeadRegistry)"
    by (auto simp: exampleHeadRegistry_def)
  show ?thesis
    using 1 2 3
    by (simp add: headStylesheets_def headOption_def onExampleSite_simps[OF site] exampleHead_simps)
qed

lemma example_scripts:
  assumes site: "onExampleSite b"
  shows "\<exists>m. headScripts b (take 3 exampleHeadRegistry) = Inr (m, exampleHeadRegistry)"
proof -
  from script_new[OF resolvedUrl_example_asset[OF site, of "''/dist/js/main.js''"],
      of "take 3 exampleHeadRegistry" False False]
  obtain m where
    "buildScriptElement b (JFile (exampleStaticFile ''/dist/js/main.js'')) False False
       (take 3 exampleHeadRegistry) = Inr (m, exampleHeadRegistry)"
    by (auto simp: exampleHeadRegistry_def)
  then show ?thesis
    by (simp add: headScripts_def headOption_def onExampleSite_simps[OF site] exampleHead_simps)
qed

lemma example_head:
  assumes site: "onExampleSite b"
  shows "\<exists>h. buildHeadElement b [] = Inr (h, exampleHeadRegistry)"
proof -
  obtain s where s: "buildHreflangLinkElements b = Inr s"
    using buildHreflangLinkElements_total by blast
  obtain m1 where m1: "headStylesheets b [] = Inr (m1, take 3 exampleHeadRegistry)"
    using example_stylesheets[OF site] by blast
  obtain m2 where m2: "headScripts b (take 3 exampleHeadRegistry) = Inr (m2, exampleHeadRegistry)"
    using example_scripts[OF site] by blast
  show ?thesis
    unfolding buildHeadElement_def s m1
    by (simp add: m2 headMetaOptions_def buildHeadMetaElements_def imageMeta_def
        buildHeadLinkElements_def optionalExtra_def inspectorScripts_def enableInspector_def
        headOption_def getFieldValue_def fieldOf_def collectionField_def coalesce_def nullish_def
        optVal_def optStr_def onExampleSite_simps[OF site] exampleHead_simps examplePage_simps
        examplePod_simps)
qed

lemma example_paths:
  assumes site: "onExampleSite b"
  shows "partialAsset b (pp_css (builderPartialPaths b)) (JStr n)
           = exampleStaticFile (''/dist/css/partials/'' @ n @ ''.css'')"
    and "partialAsset b (pp_js (builderPartialPaths b)) (JStr n)
           = exampleStaticFile (''/dist/js/partials/'' @ n @ ''.js'')"
  by (simp_all add: partialAsset_def builderPartialPaths_def partialContext_def
      onExampleSite_simps[OF site] examplePod_simps exampleModules_simps exampleInterpolate_def
      optVal_def)

lemma example_render:
  assumes site: "onExampleSite b"
  shows "\<exists>h. renderPartialTemplate b partial (JStr n) = Inr (JStr h)"
  by (simp add: renderPartialTemplate_def isString_def Let_def onExampleSite_simps[OF site]
      examplePod_simps exampleEngine_def)

lemma example_header:
  assumes site: "onExampleSite b"
  shows "\<exists>m. builtinUnlessFalse b ''header'' exampleHeadRegistry = Inr (m, exampleHeadRegistry)"
proof -
  let ?d = "JObj [(''partial'', JStr ''header'')]"
  obtain h where h: "renderPartialTemplate b ?d (JStr ''header'') = Inr (JStr h)"
    using example_render[OF site] by blast
  have l: "loadPartialResources b (JStr ''header'') exampleHeadRegistry = Inr ([], exampleHeadRegistry)"
    by (rule loadPartialResources_none)
       (simp_all add: example_paths[OF site] exampleStaticFile_simps)
  have "buildPartialElement b ?d exampleHeadRegistry
        = Inr (moduleMarkup b [] (JStr ''header'') (JStr h), exampleHeadRegistry)"
    by (simp add: buildPartialElement_def propE_def nullish_def optVal_def partialName_def
        isString_def l h)
  then show ?thesis
    by (simp add: builtinUnlessFalse_def buildBuiltinPartial_def getFieldValue_def fieldOf_def
        collectionField_def coalesce_def nullish_def optVal_def onExampleSite_simps[OF site]
        examplePage_simps examplePod_simps)
qed

lemma example_footer:
  assumes site: "onExampleSite b"
  shows "builtinUnlessFalse b ''footer'' r = Inr ([], r)"
  by (simp add: builtinUnlessFalse_def buildBuiltinPartial_def getFieldValue_def fieldOf_def
      collectionField_def coalesce_def nullish_def optVal_def onExampleSite_simps[OF site]
      examplePage_simps examplePod_simps)

lemma example_hero_first:
  assumes site: "onExampleSite b"
  shows "\<exists>m. buildPartialElement b (JObj [(''partial'', JStr ''hero''), (''title'', t)])
               exampleHeadRegistry = Inr (m, exampleRegistry)"
proof -
  let ?d = "JObj [(''partial'', JStr ''hero''), (''title'', t)]"
  obtain h where h: "renderPartialTemplate b ?d (JStr ''hero'') = Inr (JStr h)"
    using example_render[OF site] by blast
  have css: "buildStyleLinkElement b (JFile (exampleStaticFile ''/dist/css/partials/hero.css''))
               True exampleHeadRegistry = Inr ([], exampleHeadRegistry)"
    by (rule style_old[OF resolvedUrl_example_asset[OF site]])
       (simp_all add: exampleHeadRegistry_def)
  from script_new[OF resolvedUrl_example_asset[OF site, of "''/dist/js/partials/hero.js''"],
      of exampleHeadRegistry False False]
  obtain m where js: "buildScriptElement b (JFile (exampleStaticFile ''/dist/js/partials/hero.js''))
               False False exampleHeadRegistry = Inr (m, exampleRegistry)"
    by (auto simp: exampleHeadRegistry_def exampleRegistry_def)
  have l: "loadPartialResources b (JStr ''hero'') exampleHeadRegistry
           = Inr ([JStr [], JStr m], exampleRegistry)"
    using example_paths[OF site, of "''hero''"]
    by (simp add: loadPartialResources_def exampleStaticFile_simps css js)
  show ?thesis
    by (simp add: buildPartialElement_def propE_def nullish_def optVal_def partialName_def
        isString_def l h)
qed

lemma example_hero_second:
  assumes site: "onExampleSite b"
  shows "\<exists>m. buildPartialElement b (JObj [(''partial'', JStr ''hero''), (''title'', t)])
               exampleRegistry = Inr (m, exampleRegistry)"
proof -
  let ?d = "JObj [(''partial'', JStr ''hero''), (''title'', t)]"
  obtain h where h: "renderPartialTemplate b ?d (JStr ''hero'') = Inr (JStr h)"
    using example_render[OF site] by blast
  have css: "buildStyleLinkElement b (JFile (exampleStaticFile ''/dist/css/partials/hero.css''))
               True exampleRegistry = Inr ([], exampleRegistry)"
    by (rule style_old[OF resolvedUrl_example_asset[OF site]])
       (simp_all add: exampleHeadRegistry_def exampleRegistry_def)
  have js: "buildScriptElement b (JFile (exampleStaticFile ''/dist/js/partials/hero.js''))
               False False exampleRegistry = Inr ([], exampleRegistry)"
    by (rule script_old[OF resolvedUrl_example_asset[OF site]])
       (simp_all add: exampleHeadRegistry_def exampleRegistry_def)
  have l: "loadPartialResources b (JStr ''hero'') exampleRegistry
           = Inr ([JStr [], JStr []], exampleRegistry)"
    using example_paths[OF site, of "''hero''"]
    by (simp add: loadPartialResources_def exampleStaticFile_simps css js)
  show ?thesis
    by (simp add: buildPartialElement_def propE_def nullish_def optVal_def partialName_def
        isString_def l h)
qed

lemma example_parts:
  assumes site: "onExampleSite b"
  shows "\<exists>parts. buildDocumentParts b [] = Inr (parts, exampleRegistry)
                \<and> dp_prepend parts = [] \<and> dp_footer parts = []"
proof -
  obtain h where h: "buildHeadElement b [] = Inr (h, exampleHeadRegistry)"
    using example_head[OF site] by blast
  obtain hd where hd: "builtinUnlessFalse b ''header'' exampleHeadRegistry = Inr (hd, exampleHeadRegistry)"
    using example_header[OF site] by blast
  obtain m1 where m1: "buildPartialElement b
       (JObj [(''partial'', JStr ''hero''), (''title'', JStr ''Hello World 1!'')])
       exampleHeadRegistry = Inr (m1, exampleRegistry)"
    using example_hero_first[OF site] by blast
  obtain m2 where m2: "buildPartialElement b
       (JObj [(''partial'', JStr ''hero''), (''title'', JStr ''Hello World 2!'')])
       exampleRegistry = Inr (m2, exampleRegistry)"
    using example_hero_second[OF site] by blast
  have p: "getFieldValue b ''partials''
           = JList [JObj [(''partial'', JStr ''hero''), (''title'', JStr ''Hello World 1!'')],
                    JObj [(''partial'', JStr ''hero''), (''title'', JStr ''Hello World 2!'')]]"
    by (simp add: getFieldValue_def fieldOf_def coalesce_def nullish_def optVal_def
        onExampleSite_simps[OF site] examplePage_simps)
  show ?thesis
    unfolding buildDocumentParts_def p h
    by (simp add: hd m1 m2 example_footer[OF site] buildBodyTag_def bodyOption_def optionalExtra_def
        partialsList_def nullish_def onExampleSite_simps[OF site])
qed

lemma exampleBuilder_site: "onExampleSite exampleBuilder"
  by (simp add: onExampleSite_def exampleBuilder_def exampleOptions_def)

lemma unbeautified_site: "onExampleSite unbeautified"
  by (simp add: onExampleSite_def unbeautified_def exampleBuilder_def exampleOptions_def)

section \<open>Header and footer\<close>








section \<open>Content partials in list order\<close>




section \<open>Blank lines and beautification\<close>

lemma blankMatch_Some:
  "blankMatch s = Some k \<Longrightarrow> 0 < k \<and> k \<le> length s \<and> (\<forall>c \<in> set (take k s). isSpace c)"
proof (induction s arbitrary: k)
  case Nil
  then show ?case by simp
next
  case (Cons c cs)
  show ?case
  proof (cases "blankMatch cs")
    case None
    with Cons.prems show ?thesis by (auto split: if_splits)
  next
    case (Some j)
    with Cons.prems have k: "k = Suc j" and c: "isSpace c" by (auto split: if_splits)
    from Cons.IH[OF Some] k c show ?thesis by auto
  qed
qed

lemma blankMatch_stripFrom:
  "blankMatch s = None \<Longrightarrow> blankMatch (stripFrom ls s) = None"
proof (induction s arbitrary: ls)
  case Nil
  then show ?case by simp
next
  case (Cons c cs)
  from Cons.prems have step: "stripFrom ls (c # cs) = c # stripFrom (isLineTerminator c) cs"
    by simp
  show ?case
  proof (cases "isSpace c")
    case False
    with step show ?thesis by simp
  next
    case True
    with Cons.prems have "blankMatch cs = None" and "c \<noteq> CHR 0x0A"
      by (auto split: option.splits if_splits)
    with Cons.IH[of "isLineTerminator c"] step True show ?thesis by simp
  qed
qed

lemma stripFrom_no_blank: "\<not> blankFrom ls (stripFrom ls s)"
proof (induction ls s rule: stripFrom.induct)
  case (1 lineStart)
  then show ?case by simp
next
  case (2 lineStart c cs)
  show ?case
  proof (cases "if lineStart then blankMatch (c # cs) else None")
    case (Some k)
    then have "lineStart" by (auto split: if_splits)
    with Some 2(2)[OF Some] show ?thesis by simp
  next
    case None
    then have step: "stripFrom lineStart (c # cs) = c # stripFrom (isLineTerminator c) cs"
      by simp
    have "\<not> (lineStart \<and> blankMatch (c # stripFrom (isLineTerminator c) cs) \<noteq> None)"
    proof
      assume a: "lineStart \<and> blankMatch (c # stripFrom (isLineTerminator c) cs) \<noteq> None"
      with None have n: "blankMatch (c # cs) = None" by simp
      from blankMatch_stripFrom[OF n, of lineStart] step a show False by simp
    qed
    with 2(1)[OF None] step show ?thesis by simp
  qed
qed

lemma stripFrom_keeps_content:
  "filter (\<lambda>c. \<not> isSpace c) (stripFrom ls s) = filter (\<lambda>c. \<not> isSpace c) s"
proof (induction ls s rule: stripFrom.induct)
  case (1 lineStart)
  then show ?case by simp
next
  case (2 lineStart c cs)
  show ?case
  proof (cases "if lineStart then blankMatch (c # cs) else None")
    case (Some k)
    then have m: "blankMatch (c # cs) = Some k" by (auto split: if_splits)
    from blankMatch_Some[OF m] have k: "0 < k" and sp: "\<forall>x \<in> set (take k (c # cs)). isSpace x"
      by blast+
    from k have d: "drop k (c # cs) = drop (k - 1) cs" by (cases k) simp_all
    have "filter (\<lambda>c. \<not> isSpace c) (c # cs)
          = filter (\<lambda>c. \<not> isSpace c) (take k (c # cs) @ drop k (c # cs))"
      by (simp only: append_take_drop_id)
    also have "\<dots> = filter (\<lambda>c. \<not> isSpace c) (drop (k - 1) cs)"
      using sp d by (simp add: filter_empty_conv)
    finally show ?thesis using 2(2)[OF Some] Some by simp
  next
    case None
    with 2(1)[OF None] show ?thesis by simp
  qed
qed

lemma trimEnd_nonspace: "\<not> isSpace c \<Longrightarrow> trimEnd (c # cs) = c # trimEnd cs"
  by (simp add: Let_def)

lemma trimEnd_append: "trimEnd ys \<noteq> [] \<Longrightarrow> trimEnd (xs @ ys) = xs @ trimEnd ys"
  by (induction xs) (simp_all add: Let_def)

lemma blankFrom_after_newline: "blankFrom True ys \<Longrightarrow> blankFrom ls (xs @ CHR 0x0A # ys)"
  by (induction xs arbitrary: ls) (simp_all add: isLineTerminator_def)

lemma documentMarkup_blank:
  assumes "dp_prepend parts = []"
  shows "hasBlankLine (documentMarkup parts)"
proof -
  define Z where \<open>Z = ''div class="main">\<newline>          '' @ dp_header parts
     @ ''\<newline>          '' @ joinLines (dp_partials parts)
     @ ''\<newline>          '' @ dp_footer parts
     @ ''\<newline>        </div>\<newline>        '' @ dp_extra parts
     @ ''\<newline>      </body>\<newline>      </html>\<newline>    ''\<close>
  define X where \<open>X = ''<!DOCTYPE html>\<newline>      <html lang="'' @ dp_lang parts
     @ ''" itemscope itemtype="https://schema.org/WebPage">\<newline>      ''
     @ dp_head parts @ ''\<newline>      '' @ dp_bodyTag parts\<close>
  define W where "W = ''        \<newline>        ''"
  have 1: "documentMarkup parts = trimEnd ((X @ CHR 0x0A # W) @ CHR ''<'' # Z)"
    unfolding documentMarkup_def trim_def X_def Z_def W_def using assms
    by (simp add: isSpace_def del: trimEnd.simps)
  have "trimEnd (CHR ''<'' # Z) = CHR ''<'' # trimEnd Z"
    by (rule trimEnd_nonspace) (simp add: isSpace_def)
  then have 2: "trimEnd ((X @ CHR 0x0A # W) @ CHR ''<'' # Z) = (X @ CHR 0x0A # W) @ CHR ''<'' # trimEnd Z"
    using trimEnd_append[of "CHR ''<'' # Z" "X @ CHR 0x0A # W"] by simp
  have "blankFrom True (W @ CHR ''<'' # trimEnd Z)"
    unfolding W_def by (simp add: isSpace_def)
  then have "blankFrom True (X @ CHR 0x0A # (W @ CHR ''<'' # trimEnd Z))"
    by (rule blankFrom_after_newline)
  with 1 2 show ?thesis by (simp add: hasBlankLine_def)
qed

text \<open>
  Claim C8, as stated, says that blank lines are stripped whether or not beautification
  is disabled. With the beautify option set to false the example page is returned with
  its white-space-only lines still in it.
\<close>

theorem unbeautified_counterexample:
  "opt_beautify (options unbeautified) = Some False
   \<and> \<not> isl (buildDocument unbeautified [])
   \<and> hasBlankLine (fst (projr (buildDocument unbeautified [])))"
proof -
  from example_parts[OF unbeautified_site] obtain parts where
    p: "buildDocumentParts unbeautified [] = Inr (parts, exampleRegistry)"
    and "dp_prepend parts = []"
    by blast
  from documentMarkup_blank[OF this(2)] have "hasBlankLine (documentMarkup parts)" .
  moreover have o: "opt_beautify (options unbeautified) = Some False"
    by (simp add: unbeautified_def)
  ultimately show ?thesis by (simp add: buildDocument_def p)
qed

text \<open>
  Claim C8, amended: when the beautify option is exactly false the concatenated markup is
  returned as it is, blank lines included; otherwise the lines that are empty or hold only
  white space are stripped first and the result is then reformatted with an indent size
  of 2. The stripping leaves no line for its pattern to match and removes white space
  only.
\<close>

theorem beautify_gate:
  assumes "buildDocumentParts b reg = Inr (parts, reg')"
  shows "(opt_beautify (options b) = Some False \<longrightarrow>
            buildDocument b reg = Inr (documentMarkup parts, reg'))
       \<and> (opt_beautify (options b) \<noteq> Some False \<longrightarrow>
            buildDocument b reg
              = Inr (jsBeautify_html (imported b) (stripBlankLines (documentMarkup parts)) 2, reg'))
       \<and> \<not> hasBlankLine (stripBlankLines (documentMarkup parts))
       \<and> filter (\<lambda>c. \<not> isSpace c) (stripBlankLines (documentMarkup parts))
           = filter (\<lambda>c. \<not> isSpace c) (documentMarkup parts)"
  using assms
  by (simp add: buildDocument_def hasBlankLine_def stripBlankLines_def stripFrom_no_blank
      stripFrom_keeps_content)

theorem beautify_gate_witness:
  "buildDocument exampleBuilder []
     = Inr (jsBeautify_html (imported exampleBuilder)
              (stripBlankLines (documentMarkup (fst (projr (buildDocumentParts exampleBuilder [])))))
              2, exampleRegistry)
   \<and> buildDocument unbeautified []
     = Inr (documentMarkup (fst (projr (buildDocumentParts unbeautified []))), exampleRegistry)
   \<and> \<not> hasBlankLine
         (stripBlankLines (documentMarkup (fst (projr (buildDocumentParts exampleBuilder [])))))"
proof -
  let ?R = "buildDocumentParts exampleBuilder []"
  let ?S = "buildDocumentParts unbeautified []"
  from example_parts[OF exampleBuilder_site] obtain parts where
    "?R = Inr (parts, exampleRegistry)" by blast
  then have r: "?R = Inr (fst (projr ?R), exampleRegistry)" by simp
  from example_parts[OF unbeautified_site] obtain parts' where
    "?S = Inr (parts', exampleRegistry)" by blast
  then have s: "?S = Inr (fst (projr ?S), exampleRegistry)" by simp
  have o1: "opt_beautify (options exampleBuilder) \<noteq> Some False"
    by (simp add: exampleBuilder_def exampleOptions_def)
  have o2: "opt_beautify (options unbeautified) = Some False"
    by (simp add: unbeautified_def)
  from beautify_gate[OF r] o1 beautify_gate[OF s] o2 show ?thesis by blast
qed

end
